theory Spec2Isabelle
  imports Complex_Main "HOL-Library.Word" "HOL-Library.Monad_Syntax"
begin

unbundle bit_operations_syntax

section \<open>Data model\<close>

text \<open>
  A shallow embedding of the cairo drawing code of librsvg (the file that starts with the
  comment \<^verbatim>\<open>rsvg-shapes.c: Draw shapes with cairo\<close>): the node-acquisition protocol, the
  render stack (discrete layers), clip-path evaluation, luminance masks and the
  pixel-format conversions.

  Conventions of the model.
  \<^item> \<^verbatim>\<open>guint8\<close>/\<^verbatim>\<open>guchar\<close> and \<^verbatim>\<open>guint32\<close>/\<^verbatim>\<open>guint\<close> are 8-bit and 32-bit words.
  \<^item> Pointers to nodes, cairo contexts and cairo surfaces are handles (natural numbers);
    \<^verbatim>\<open>NULL\<close> is \<open>None\<close> of an option type.
  \<^item> A C \<^verbatim>\<open>double\<close> is idealised as a real number. Doubles are only stored, copied and
    handed to the backend by the functions below; no theorem depends on their arithmetic.
  \<^item> A function that can stop the process (\<^verbatim>\<open>g_assert\<close>, a \<^verbatim>\<open>NULL\<close> dereference) returns an
    option: \<open>None\<close> is the abort, \<open>Some\<close> is a normal return. \<^verbatim>\<open>g_return_if_fail\<close> is not an
    abort: it logs a critical message and returns.
  \<^item> Functions and types that the file uses but that are defined elsewhere (the node
    tree, the style state accessors, the bounding-box arithmetic, the filter subsystem,
    the cairo backend's allocation status) are parameters, collected in the record \<open>env\<close>.
    Calls into the cairo backend are recorded, in order, in \<open>cairo_log\<close>.
\<close>

type_synonym guint8 = "8 word"
type_synonym guint32 = "32 word"

type_synonym RsvgNode = nat
type_synonym cairo_t = nat
type_synonym cairo_surface_t = nat

datatype RsvgNodeType =
  RSVG_NODE_TYPE_CLIP_PATH | RSVG_NODE_TYPE_FILTER | RSVG_NODE_TYPE_MASK | RSVG_NODE_TYPE_OTHER

datatype RsvgCoordUnits = userSpaceOnUse | objectBoundingBox

datatype cairo_operator_t = CAIRO_OPERATOR_OVER | CAIRO_OPERATOR_OTHER nat

datatype RsvgEnableBackgroundType =
  RSVG_ENABLE_BACKGROUND_ACCUMULATE | RSVG_ENABLE_BACKGROUND_NEW

datatype cairo_status_t = CAIRO_STATUS_SUCCESS | CAIRO_STATUS_NO_MEMORY

datatype RsvgLength = RsvgLength real

record cairo_matrix_t =
  xx :: real
  yx :: real
  xy :: real
  yy :: real
  x0 :: real
  y0 :: real

record cairo_rectangle_t =
  rect_x :: real
  rect_y :: real
  rect_width :: real
  rect_height :: real

record RsvgBbox =
  bbox_rect :: cairo_rectangle_t
  bbox_affine :: cairo_matrix_t
  bbox_virgin :: bool

record RsvgViewBox =
  vb_rect :: cairo_rectangle_t
  vb_active :: bool

text \<open>
  The style state. The file reads it only through the accessors \<^verbatim>\<open>rsvg_state_get_*\<close>, so the
  fields carry the accessors' names; a string accessor returns \<^verbatim>\<open>NULL\<close> when the property is
  not set.
\<close>

record RsvgState =
  rsvg_state_get_clip_path :: "string option"
  rsvg_state_get_filter :: "string option"
  rsvg_state_get_mask :: "string option"
  rsvg_state_get_opacity :: guint8
  rsvg_state_get_comp_op :: cairo_operator_t
  rsvg_state_get_enable_background :: RsvgEnableBackgroundType
  rsvg_state_get_affine :: cairo_matrix_t

text \<open>The calls into the cairo backend, with the handles they take or return.\<close>

datatype cairo_call =
    CAIRO_IMAGE_SURFACE_CREATE cairo_surface_t nat nat
  | CAIRO_SURFACE_CREATE_SIMILAR cairo_surface_t cairo_surface_t nat nat
  | CAIRO_SURFACE_DESTROY cairo_surface_t
  | CAIRO_CREATE cairo_t cairo_surface_t
  | CAIRO_DESTROY cairo_t
  | CAIRO_SAVE cairo_t
  | CAIRO_RESTORE cairo_t
  | CAIRO_IDENTITY_MATRIX cairo_t
  | CAIRO_SET_SOURCE_SURFACE cairo_t cairo_surface_t real real
  | CAIRO_SET_OPERATOR cairo_t cairo_operator_t
  | CAIRO_MASK_SURFACE cairo_t cairo_surface_t real real
  | CAIRO_PAINT cairo_t
  | CAIRO_PAINT_WITH_ALPHA cairo_t real
  | CAIRO_CLIP cairo_t

text \<open>
  \<^verbatim>\<open>RsvgDrawingCtx\<close>. The first group of fields are the fields of the C struct that the file
  touches. The second group is the state the context reaches through pointers: the style
  state of each node (\<open>node_state\<close>, mutated by the bounding-box hack of clip paths and
  masks), the cairo backend (the log of calls, the next fresh handle, the target surface
  of each cairo context, the pixels of each image surface) and the number of critical
  messages that \<^verbatim>\<open>g_return_if_fail\<close> has logged.
\<close>

record RsvgDrawingCtx =
  cr :: cairo_t
  initial_cr :: cairo_t
  cr_stack :: "cairo_t list"
  surfaces_stack :: "cairo_surface_t list"
  state :: RsvgState
  defs :: "string \<rightharpoonup> RsvgNode"
  vb :: RsvgViewBox
  vb_stack :: "RsvgViewBox list"
  acquired_nodes :: "RsvgNode list"
  offset_x :: real
  offset_y :: real
  width :: nat
  height :: nat
  bbox :: RsvgBbox
  ink_bbox :: RsvgBbox
  bb_stack :: "RsvgBbox list"
  ink_bb_stack :: "RsvgBbox list"
  node_state :: "RsvgNode \<Rightarrow> RsvgState"
  cairo_log :: "cairo_call list"
  next_handle :: nat
  cairo_target :: "cairo_t \<Rightarrow> cairo_surface_t"
  surface_data :: "cairo_surface_t \<Rightarrow> guint32 list"
  criticals :: nat

text \<open>
  The collaborators: functions the file calls that are defined in other files of the
  library (or in cairo). They are parameters of the model; a theorem that holds for every
  \<open>env\<close> holds whatever these functions do.
\<close>

record env =
  rsvg_node_get_type :: "RsvgNode \<Rightarrow> RsvgNodeType"
  rsvg_node_clip_path_get_units :: "RsvgNode \<Rightarrow> RsvgCoordUnits"
  rsvg_node_mask_get_units :: "RsvgNode \<Rightarrow> RsvgCoordUnits"
  rsvg_node_mask_get_content_units :: "RsvgNode \<Rightarrow> RsvgCoordUnits"
  rsvg_node_mask_get_x :: "RsvgNode \<Rightarrow> RsvgLength"
  rsvg_node_mask_get_y :: "RsvgNode \<Rightarrow> RsvgLength"
  rsvg_node_mask_get_width :: "RsvgNode \<Rightarrow> RsvgLength"
  rsvg_node_mask_get_height :: "RsvgNode \<Rightarrow> RsvgLength"
  rsvg_length_normalize :: "RsvgLength \<Rightarrow> RsvgDrawingCtx \<Rightarrow> real"
  rsvg_drawing_ctx_state_push :: "RsvgDrawingCtx \<Rightarrow> RsvgDrawingCtx option"
  rsvg_drawing_ctx_state_pop :: "RsvgDrawingCtx \<Rightarrow> RsvgDrawingCtx option"
  rsvg_node_draw_children :: "RsvgNode \<Rightarrow> RsvgDrawingCtx \<Rightarrow> int \<Rightarrow> bool \<Rightarrow> RsvgDrawingCtx option"
  rsvg_cairo_add_clipping_rect ::
    "RsvgDrawingCtx \<Rightarrow> cairo_matrix_t \<Rightarrow> real \<Rightarrow> real \<Rightarrow> real \<Rightarrow> real \<Rightarrow> RsvgDrawingCtx option"
  rsvg_filter_render ::
    "RsvgNode \<Rightarrow> cairo_surface_t \<Rightarrow> RsvgDrawingCtx \<Rightarrow> (cairo_surface_t \<times> RsvgDrawingCtx) option"
  rsvg_bbox_init :: "cairo_matrix_t \<Rightarrow> RsvgBbox"
  rsvg_bbox_insert :: "RsvgBbox \<Rightarrow> RsvgBbox \<Rightarrow> RsvgBbox"
  cairo_matrix_multiply :: "cairo_matrix_t \<Rightarrow> cairo_matrix_t \<Rightarrow> cairo_matrix_t"
  cairo_surface_status :: "cairo_surface_t \<Rightarrow> cairo_status_t"
  cairo_image_surface_get_stride :: "cairo_surface_t \<Rightarrow> nat"

section \<open>The cairo backend and glib\<close>

text \<open>\<^verbatim>\<open>g_assert (e)\<close>: the process aborts when \<open>e\<close> is false.\<close>

definition g_assert :: "bool \<Rightarrow> unit option" where
  "g_assert e = (if e then Some () else None)"

text \<open>
  The failure branch of \<^verbatim>\<open>g_return_if_fail (e)\<close>: a critical message is logged and the
  calling function returns; nothing else changes.
\<close>

definition g_return_if_fail_warning :: "RsvgDrawingCtx \<Rightarrow> RsvgDrawingCtx" where
  "g_return_if_fail_warning ctx = ctx\<lparr>criticals := Suc (criticals ctx)\<rparr>"

text \<open>A backend call that returns nothing is appended to the log.\<close>

definition cairo :: "cairo_call \<Rightarrow> RsvgDrawingCtx \<Rightarrow> RsvgDrawingCtx" where
  "cairo c ctx = ctx\<lparr>cairo_log := cairo_log ctx @ [c]\<rparr>"

text \<open>
  The constructors of the backend return a fresh handle, whether or not the allocation
  behind it succeeded: cairo reports a failure through the status of the returned object
  (\<open>cairo_surface_status\<close> of \<open>env\<close>), never through \<^verbatim>\<open>NULL\<close>.
\<close>

definition cairo_image_surface_create ::
  "RsvgDrawingCtx \<Rightarrow> nat \<Rightarrow> nat \<Rightarrow> cairo_surface_t \<times> RsvgDrawingCtx" where
  "cairo_image_surface_create ctx w h =
     (let s = next_handle ctx in
      (s, ctx\<lparr>next_handle := Suc s,
              cairo_log := cairo_log ctx @ [CAIRO_IMAGE_SURFACE_CREATE s w h]\<rparr>))"

definition cairo_surface_create_similar ::
  "RsvgDrawingCtx \<Rightarrow> cairo_surface_t \<Rightarrow> nat \<Rightarrow> nat \<Rightarrow> cairo_surface_t \<times> RsvgDrawingCtx" where
  "cairo_surface_create_similar ctx other w h =
     (let s = next_handle ctx in
      (s, ctx\<lparr>next_handle := Suc s,
              cairo_log := cairo_log ctx @ [CAIRO_SURFACE_CREATE_SIMILAR s other w h]\<rparr>))"

definition cairo_create :: "RsvgDrawingCtx \<Rightarrow> cairo_surface_t \<Rightarrow> cairo_t \<times> RsvgDrawingCtx" where
  "cairo_create ctx surface =
     (let c = next_handle ctx in
      (c, ctx\<lparr>next_handle := Suc c,
              cairo_target := (cairo_target ctx)(c := surface),
              cairo_log := cairo_log ctx @ [CAIRO_CREATE c surface]\<rparr>))"

definition cairo_matrix_init ::
  "real \<Rightarrow> real \<Rightarrow> real \<Rightarrow> real \<Rightarrow> real \<Rightarrow> real \<Rightarrow> cairo_matrix_t" where
  "cairo_matrix_init a b c d e f = \<lparr>xx = a, yx = b, xy = c, yy = d, x0 = e, y0 = f\<rparr>"

definition rsvg_state_set_affine ::
  "RsvgDrawingCtx \<Rightarrow> RsvgNode \<Rightarrow> cairo_matrix_t \<Rightarrow> RsvgDrawingCtx" where
  "rsvg_state_set_affine ctx node m =
     ctx\<lparr>node_state := (node_state ctx)(node := (node_state ctx node)\<lparr>rsvg_state_get_affine := m\<rparr>)\<rparr>"

section \<open>Node acquisition\<close>

text \<open>
  \<^verbatim>\<open>rsvg_drawing_ctx_acquire_node\<close>. \<^verbatim>\<open>rsvg_defs_lookup (ctx->defs, url)\<close> is the lookup in
  the map \<open>defs\<close>; \<^verbatim>\<open>g_slist_find\<close> is membership; \<^verbatim>\<open>g_slist_prepend\<close> is \<open>#\<close>.
\<close>

definition rsvg_drawing_ctx_acquire_node ::
  "RsvgDrawingCtx \<Rightarrow> string option \<Rightarrow> RsvgNode option \<times> RsvgDrawingCtx" where
  "rsvg_drawing_ctx_acquire_node ctx url =
     (case url of
        None \<Rightarrow> (None, ctx)
      | Some u \<Rightarrow>
          (case defs ctx u of
             None \<Rightarrow> (None, ctx)
           | Some node \<Rightarrow>
               if node \<in> set (acquired_nodes ctx) then (None, ctx)
               else (Some node, ctx\<lparr>acquired_nodes := node # acquired_nodes ctx\<rparr>)))"

text \<open>
  \<^verbatim>\<open>rsvg_drawing_ctx_release_node\<close>. Both checks are \<^verbatim>\<open>g_return_if_fail\<close>; \<^verbatim>\<open>g_slist_remove\<close>
  removes the first element equal to \<open>node\<close>.
\<close>

definition rsvg_drawing_ctx_release_node ::
  "RsvgDrawingCtx \<Rightarrow> RsvgNode option \<Rightarrow> RsvgDrawingCtx option" where
  "rsvg_drawing_ctx_release_node ctx node =
     (case node of
        None \<Rightarrow> Some ctx
      | Some n \<Rightarrow>
          (case acquired_nodes ctx of
             [] \<Rightarrow> Some (g_return_if_fail_warning ctx)
           | data # _ \<Rightarrow>
               if data \<noteq> n then Some (g_return_if_fail_warning ctx)
               else Some (ctx\<lparr>acquired_nodes := remove1 n (acquired_nodes ctx)\<rparr>)))"

text \<open>\<^verbatim>\<open>rsvg_drawing_ctx_acquire_node_of_type\<close>.\<close>

definition rsvg_drawing_ctx_acquire_node_of_type ::
  "env \<Rightarrow> RsvgDrawingCtx \<Rightarrow> string option \<Rightarrow> RsvgNodeType \<Rightarrow>
   (RsvgNode option \<times> RsvgDrawingCtx) option" where
  "rsvg_drawing_ctx_acquire_node_of_type e ctx url type =
     (case rsvg_drawing_ctx_acquire_node ctx url of
        (None, ctx1) \<Rightarrow>
          do { ctx2 \<leftarrow> rsvg_drawing_ctx_release_node ctx1 None; Some (None, ctx2) }
      | (Some node, ctx1) \<Rightarrow>
          if rsvg_node_get_type e node \<noteq> type
          then do { ctx2 \<leftarrow> rsvg_drawing_ctx_release_node ctx1 (Some node); Some (None, ctx2) }
          else Some (Some node, ctx1))"

section \<open>View boxes and bounding boxes\<close>

definition rsvg_drawing_ctx_push_view_box ::
  "RsvgDrawingCtx \<Rightarrow> real \<Rightarrow> real \<Rightarrow> RsvgDrawingCtx" where
  "rsvg_drawing_ctx_push_view_box ctx w h =
     ctx\<lparr>vb_stack := vb ctx # vb_stack ctx,
         vb := (vb ctx)\<lparr>vb_rect := (vb_rect (vb ctx))\<lparr>rect_width := w, rect_height := h\<rparr>\<rparr>\<rparr>"

definition rsvg_drawing_ctx_pop_view_box :: "RsvgDrawingCtx \<Rightarrow> RsvgDrawingCtx option" where
  "rsvg_drawing_ctx_pop_view_box ctx =
     (case vb_stack ctx of
        [] \<Rightarrow> None
      | v # vs \<Rightarrow> Some (ctx\<lparr>vb := v, vb_stack := vs\<rparr>))"

definition push_bounding_box :: "env \<Rightarrow> RsvgDrawingCtx \<Rightarrow> RsvgDrawingCtx" where
  "push_bounding_box e ctx =
     (let affine = rsvg_state_get_affine (state ctx) in
      ctx\<lparr>bb_stack := bbox ctx # bb_stack ctx,
          ink_bb_stack := ink_bbox ctx # ink_bb_stack ctx,
          bbox := rsvg_bbox_init e affine,
          ink_bbox := rsvg_bbox_init e affine\<rparr>)"

definition pop_bounding_box :: "env \<Rightarrow> RsvgDrawingCtx \<Rightarrow> RsvgDrawingCtx option" where
  "pop_bounding_box e ctx =
     (case (bb_stack ctx, ink_bb_stack ctx) of
        (b # bs, i # is) \<Rightarrow>
          Some (ctx\<lparr>bbox := rsvg_bbox_insert e b (bbox ctx),
                    ink_bbox := rsvg_bbox_insert e i (ink_bbox ctx),
                    bb_stack := bs,
                    ink_bb_stack := is\<rparr>)
      | _ \<Rightarrow> None)"

section \<open>Clip paths\<close>

text \<open>
  \<^verbatim>\<open>rsvg_cairo_clip\<close>. \<open>affinesave\<close> is read inside the first conditional in the source and
  used only inside the second one, under the same condition. The two assertions compare
  the list heads; here the lists are compared.
\<close>

definition rsvg_cairo_clip ::
  "env \<Rightarrow> RsvgDrawingCtx \<Rightarrow> RsvgNode \<Rightarrow> RsvgBbox option \<Rightarrow> RsvgDrawingCtx option" where
  "rsvg_cairo_clip e ctx node_clip_path bbox_arg =
     do {
       _ \<leftarrow> g_assert (rsvg_node_get_type e node_clip_path = RSVG_NODE_TYPE_CLIP_PATH);
       let clip_units = rsvg_node_clip_path_get_units e node_clip_path;
       let affinesave = rsvg_state_get_affine (node_state ctx node_clip_path);
       ctx1 \<leftarrow>
         (if clip_units = objectBoundingBox then
            (case bbox_arg of
               None \<Rightarrow> None
             | Some b \<Rightarrow>
                 let bbtransform = cairo_matrix_init (rect_width (bbox_rect b)) 0 0
                                     (rect_height (bbox_rect b))
                                     (rect_x (bbox_rect b)) (rect_y (bbox_rect b));
                     bbtransform = cairo_matrix_multiply e bbtransform affinesave
                 in Some (rsvg_state_set_affine ctx node_clip_path bbtransform))
          else Some ctx);
       let orig_cr_stack = cr_stack ctx1;
       let orig_surfaces_stack = surfaces_stack ctx1;
       let orig_bbox = bbox ctx1;
       let orig_ink_bbox = ink_bbox ctx1;
       ctx2 \<leftarrow> rsvg_drawing_ctx_state_push e ctx1;
       ctx3 \<leftarrow> rsvg_node_draw_children e node_clip_path ctx2 0 True;
       ctx4 \<leftarrow> rsvg_drawing_ctx_state_pop e ctx3;
       let ctx5 = (if clip_units = objectBoundingBox
                   then rsvg_state_set_affine ctx4 node_clip_path affinesave else ctx4);
       _ \<leftarrow> g_assert (cr_stack ctx5 = orig_cr_stack);
       _ \<leftarrow> g_assert (surfaces_stack ctx5 = orig_surfaces_stack);
       let ctx6 = ctx5\<lparr>bbox := orig_bbox, ink_bbox := orig_ink_bbox\<rparr>;
       Some (cairo (CAIRO_CLIP (cr ctx6)) ctx6)
     }"

section \<open>Luminance masks\<close>

text \<open>
  The assignment to \<^verbatim>\<open>*pixel\<close> in \<^verbatim>\<open>rsvg_cairo_generate_mask\<close>. \<open>opacity\<close> is a \<^verbatim>\<open>guint8\<close>, promoted
  to the width of the product; the arithmetic is that of \<^verbatim>\<open>guint32\<close>.
\<close>

definition mask_pixel :: "guint32 \<Rightarrow> guint8 \<Rightarrow> guint32" where
  "mask_pixel pixel opacity =
     (drop_bit 16 (pixel AND 0x00ff0000) * 14042 +
      drop_bit 8 (pixel AND 0x0000ff00) * 47240 +
      (pixel AND 0x000000ff) * 4769) * ucast opacity"

text \<open>
  The two loops over the image data. The data of an image surface is a list of 32-bit
  pixels; \<open>rowstride\<close> is in bytes and a multiple of 4 for this format, so that the pixel
  \<open>i\<close> of the row \<open>row\<close> is the element \<open>row * rowstride div 4 + i\<close>. The backend allocates
  \<open>height * rowstride\<close> bytes, so every index the loops use is in range.
\<close>

function mask_row :: "guint8 \<Rightarrow> nat \<Rightarrow> nat \<Rightarrow> nat \<Rightarrow> guint32 list \<Rightarrow> guint32 list" where
  "mask_row opacity row_data w i pixels =
     (if i < w
      then mask_row opacity row_data w (Suc i)
             (pixels[row_data + i := mask_pixel (pixels ! (row_data + i)) opacity])
      else pixels)"
  by pat_completeness auto
termination
  by (relation "measure (\<lambda>(opacity, row_data, w, i, pixels). w - i)") auto

declare mask_row.simps [simp del]

function mask_rows ::
  "guint8 \<Rightarrow> nat \<Rightarrow> nat \<Rightarrow> nat \<Rightarrow> nat \<Rightarrow> guint32 list \<Rightarrow> guint32 list" where
  "mask_rows opacity rowstride w h row pixels =
     (if row < h
      then mask_rows opacity rowstride w h (Suc row)
             (mask_row opacity (row * rowstride div 4) w 0 pixels)
      else pixels)"
  by pat_completeness auto
termination
  by (relation "measure (\<lambda>(opacity, rowstride, w, h, row, pixels). h - row)") auto

declare mask_rows.simps [simp del]

text \<open>
  The part of \<^verbatim>\<open>rsvg_cairo_generate_mask\<close> from \<^verbatim>\<open>mask_units = ...\<close> to \<^verbatim>\<open>ctx->cr = save_cr\<close>:
  the region of the mask, the cairo context on the new surface, the clipping rectangle,
  the drawing of the mask's children into the surface, and the restored target. It returns
  the context, the cairo context \<open>mask_cr\<close> it created and the style state \<open>state\<close> it
  fetched.
\<close>

definition generate_mask_children ::
  "env \<Rightarrow> RsvgNode \<Rightarrow> cairo_surface_t \<Rightarrow> RsvgDrawingCtx \<Rightarrow>
   (RsvgDrawingCtx \<times> cairo_t \<times> RsvgState) option" where
  "generate_mask_children e mask_node surface ctx =
     do {
       let mask_units = rsvg_node_mask_get_units e mask_node;
       let content_units = rsvg_node_mask_get_content_units e mask_node;
       let ctx = (if mask_units = objectBoundingBox
                  then rsvg_drawing_ctx_push_view_box ctx 1 1 else ctx);
       let sx = rsvg_length_normalize e (rsvg_node_mask_get_x e mask_node) ctx;
       let sy = rsvg_length_normalize e (rsvg_node_mask_get_y e mask_node) ctx;
       let sw = rsvg_length_normalize e (rsvg_node_mask_get_width e mask_node) ctx;
       let sh = rsvg_length_normalize e (rsvg_node_mask_get_height e mask_node) ctx;
       ctx \<leftarrow> (if mask_units = objectBoundingBox
               then rsvg_drawing_ctx_pop_view_box ctx else Some ctx);
       let (mask_cr, ctx) = cairo_create ctx surface;
       let save_cr = cr ctx;
       let ctx = ctx\<lparr>cr := mask_cr\<rparr>;
       let st = state ctx;
       let affine = rsvg_state_get_affine st;
       ctx \<leftarrow>
         (if mask_units = objectBoundingBox
          then rsvg_cairo_add_clipping_rect e ctx affine
                 (sx * rect_width (bbox_rect (bbox ctx)) + rect_x (bbox_rect (bbox ctx)))
                 (sy * rect_height (bbox_rect (bbox ctx)) + rect_y (bbox_rect (bbox ctx)))
                 (sw * rect_width (bbox_rect (bbox ctx)))
                 (sh * rect_height (bbox_rect (bbox ctx)))
          else rsvg_cairo_add_clipping_rect e ctx affine sx sy sw sh);
       let affinesave = rsvg_state_get_affine (node_state ctx mask_node);
       let ctx =
         (if content_units = objectBoundingBox then
            let bbtransform = cairo_matrix_init (rect_width (bbox_rect (bbox ctx))) 0 0
                                (rect_height (bbox_rect (bbox ctx)))
                                (rect_x (bbox_rect (bbox ctx))) (rect_y (bbox_rect (bbox ctx)));
                bbtransform = cairo_matrix_multiply e bbtransform affinesave
            in rsvg_drawing_ctx_push_view_box (rsvg_state_set_affine ctx mask_node bbtransform) 1 1
          else ctx);
       ctx \<leftarrow> rsvg_drawing_ctx_state_push e ctx;
       ctx \<leftarrow> rsvg_node_draw_children e mask_node ctx 0 False;
       ctx \<leftarrow> rsvg_drawing_ctx_state_pop e ctx;
       ctx \<leftarrow>
         (if content_units = objectBoundingBox then
            do {
              ctx \<leftarrow> rsvg_drawing_ctx_pop_view_box ctx;
              Some (rsvg_state_set_affine ctx mask_node affinesave)
            }
          else Some ctx);
       let ctx = ctx\<lparr>cr := save_cr\<rparr>;
       Some (ctx, mask_cr, st)
     }"

text \<open>
  \<^verbatim>\<open>rsvg_cairo_generate_mask\<close>. The width and the height are read when the function is
  entered. \<open>state\<close> is fetched before the children are drawn and read for the opacity
  afterwards; the model reads the opacity of the state as fetched. The loops work on the
  data of the new surface as the drawing of the children left it, and the surface is then
  handed to \<^verbatim>\<open>cairo_mask_surface\<close>.
\<close>

definition rsvg_cairo_generate_mask ::
  "env \<Rightarrow> cairo_t \<Rightarrow> RsvgNode \<Rightarrow> RsvgDrawingCtx \<Rightarrow> RsvgDrawingCtx option" where
  "rsvg_cairo_generate_mask e cr_arg mask_node ctx =
     do {
       let w = width ctx;
       let h = height ctx;
       _ \<leftarrow> g_assert (rsvg_node_get_type e mask_node = RSVG_NODE_TYPE_MASK);
       let (surface, ctx) = cairo_image_surface_create ctx w h;
       if cairo_surface_status e surface \<noteq> CAIRO_STATUS_SUCCESS
       then Some (cairo (CAIRO_SURFACE_DESTROY surface) ctx)
       else do {
         let rowstride = cairo_image_surface_get_stride e surface;
         (ctx, mask_cr, st) \<leftarrow> generate_mask_children e mask_node surface ctx;
         let opacity = rsvg_state_get_opacity st;
         let ctx = ctx\<lparr>surface_data := (surface_data ctx)
                     (surface := mask_rows opacity rowstride w h 0
                                   (surface_data ctx surface))\<rparr>;
         let ctx = cairo (CAIRO_DESTROY mask_cr) ctx;
         let (off_x, off_y) =
           (if cr_arg = initial_cr ctx then (offset_x ctx, offset_y ctx) else (0, 0));
         let ctx = cairo (CAIRO_IDENTITY_MATRIX cr_arg) ctx;
         let ctx = cairo (CAIRO_MASK_SURFACE cr_arg surface off_x off_y) ctx;
         Some (cairo (CAIRO_SURFACE_DESTROY surface) ctx)
       }
     }"

section \<open>The render stack\<close>

text \<open>
  The condition of the early return, the same expression in
  \<^verbatim>\<open>rsvg_cairo_push_render_stack\<close> (where \<open>lateclip\<close> is a \<^verbatim>\<open>gboolean\<close>) and in
  \<^verbatim>\<open>rsvg_cairo_pop_render_stack\<close> (where it is a node pointer, tested for \<^verbatim>\<open>NULL\<close>).
\<close>

definition render_stack_fast_path :: "RsvgState \<Rightarrow> bool \<Rightarrow> bool" where
  "render_stack_fast_path st lateclip \<longleftrightarrow>
     rsvg_state_get_opacity st = 0xFF
     \<and> rsvg_state_get_filter st = None \<and> rsvg_state_get_mask st = None \<and> \<not> lateclip
     \<and> rsvg_state_get_comp_op st = CAIRO_OPERATOR_OVER
     \<and> rsvg_state_get_enable_background st = RSVG_ENABLE_BACKGROUND_ACCUMULATE"

text \<open>
  The block \<^verbatim>\<open>if (clip_path) { ... }\<close> of \<^verbatim>\<open>rsvg_cairo_push_render_stack\<close>: it returns the
  context and the flag \<open>lateclip\<close>.
\<close>

definition push_render_stack_clip ::
  "env \<Rightarrow> RsvgDrawingCtx \<Rightarrow> (RsvgDrawingCtx \<times> bool) option" where
  "push_render_stack_clip e ctx =
     (case rsvg_state_get_clip_path (state ctx) of
        None \<Rightarrow> Some (ctx, False)
      | Some clip_path \<Rightarrow>
          do {
            (node, ctx) \<leftarrow> rsvg_drawing_ctx_acquire_node_of_type e ctx (Some clip_path)
                              RSVG_NODE_TYPE_CLIP_PATH;
            case node of
              None \<Rightarrow> Some (ctx, False)
            | Some n \<Rightarrow>
                do {
                  (ctx, lateclip) \<leftarrow>
                    (case rsvg_node_clip_path_get_units e n of
                       userSpaceOnUse \<Rightarrow>
                         do { ctx \<leftarrow> rsvg_cairo_clip e ctx n None; Some (ctx, False) }
                     | objectBoundingBox \<Rightarrow> Some (ctx, True));
                  ctx \<leftarrow> rsvg_drawing_ctx_release_node ctx (Some n);
                  Some (ctx, lateclip)
                }
          })"

text \<open>
  \<^verbatim>\<open>rsvg_cairo_push_render_stack\<close>. The check of the surface's status after the allocation
  is inside \<^verbatim>\<open>#if 0 ... #endif\<close> in the source, so it is not part of the function.
\<close>

definition rsvg_cairo_push_render_stack :: "env \<Rightarrow> RsvgDrawingCtx \<Rightarrow> RsvgDrawingCtx option" where
  "rsvg_cairo_push_render_stack e ctx =
     do {
       let st = state ctx;
       let filter_url = rsvg_state_get_filter st;
       (ctx, lateclip) \<leftarrow> push_render_stack_clip e ctx;
       if render_stack_fast_path st lateclip then Some ctx
       else do {
         let (surface, ctx) =
           (case filter_url of
              None \<Rightarrow>
                cairo_surface_create_similar ctx (cairo_target ctx (cr ctx)) (width ctx) (height ctx)
            | Some _ \<Rightarrow>
                let (surface, ctx) = cairo_image_surface_create ctx (width ctx) (height ctx)
                in (surface, ctx\<lparr>surfaces_stack := surface # surfaces_stack ctx\<rparr>));
         let (child_cr, ctx) = cairo_create ctx surface;
         let ctx = cairo (CAIRO_SURFACE_DESTROY surface) ctx;
         let ctx = ctx\<lparr>cr_stack := cr ctx # cr_stack ctx\<rparr>;
         let ctx = ctx\<lparr>cr := child_cr\<rparr>;
         Some (push_bounding_box e ctx)
       }
     }"

definition rsvg_cairo_push_discrete_layer ::
  "env \<Rightarrow> RsvgDrawingCtx \<Rightarrow> bool \<Rightarrow> RsvgDrawingCtx option" where
  "rsvg_cairo_push_discrete_layer e ctx clipping =
     (if \<not> clipping
      then rsvg_cairo_push_render_stack e (cairo (CAIRO_SAVE (cr ctx)) ctx)
      else Some ctx)"

text \<open>
  The block \<^verbatim>\<open>if (clip_path) { ... }\<close> of \<^verbatim>\<open>rsvg_cairo_pop_render_stack\<close>: it returns the
  context and the node \<open>lateclip\<close>, which stays acquired when it is not \<^verbatim>\<open>NULL\<close>.
\<close>

definition pop_render_stack_clip ::
  "env \<Rightarrow> RsvgDrawingCtx \<Rightarrow> (RsvgDrawingCtx \<times> RsvgNode option) option" where
  "pop_render_stack_clip e ctx =
     (case rsvg_state_get_clip_path (state ctx) of
        None \<Rightarrow> Some (ctx, None)
      | Some clip_path \<Rightarrow>
          do {
            (node, ctx) \<leftarrow> rsvg_drawing_ctx_acquire_node_of_type e ctx (Some clip_path)
                              RSVG_NODE_TYPE_CLIP_PATH;
            case node of
              None \<Rightarrow> Some (ctx, None)
            | Some n \<Rightarrow>
                if rsvg_node_clip_path_get_units e n = objectBoundingBox
                then Some (ctx, Some n)
                else do { ctx \<leftarrow> rsvg_drawing_ctx_release_node ctx (Some n); Some (ctx, None) }
          })"

text \<open>
  The part of \<^verbatim>\<open>rsvg_cairo_pop_render_stack\<close> from \<^verbatim>\<open>surface = cairo_get_target (child_cr)\<close>
  to \<^verbatim>\<open>cairo_set_operator\<close>: the filter, the restored target, the source surface and the
  deferred clip. It returns the context, \<open>surface\<close> and \<open>needs_destroy\<close>.
\<close>

definition pop_render_stack_restore ::
  "env \<Rightarrow> RsvgDrawingCtx \<Rightarrow> RsvgState \<Rightarrow> cairo_t \<Rightarrow> RsvgNode option \<Rightarrow>
   (RsvgDrawingCtx \<times> cairo_surface_t \<times> bool) option" where
  "pop_render_stack_restore e ctx st child_cr lateclip =
     do {
       let surface = cairo_target ctx child_cr;
       (ctx, surface, needs_destroy) \<leftarrow>
         (case rsvg_state_get_filter st of
            None \<Rightarrow> Some (ctx, surface, False)
          | Some filter_url \<Rightarrow>
              (case surfaces_stack ctx of
                 [] \<Rightarrow> None
               | output # rest \<Rightarrow>
                   do {
                     let ctx = ctx\<lparr>surfaces_stack := rest\<rparr>;
                     (node, ctx) \<leftarrow> rsvg_drawing_ctx_acquire_node_of_type e ctx (Some filter_url)
                                       RSVG_NODE_TYPE_FILTER;
                     case node of
                       None \<Rightarrow> Some (ctx, surface, False)
                     | Some n \<Rightarrow>
                         do {
                           (surface, ctx) \<leftarrow> rsvg_filter_render e n output ctx;
                           ctx \<leftarrow> rsvg_drawing_ctx_release_node ctx (Some n);
                           Some (ctx, surface, True)
                         }
                   }));
       case cr_stack ctx of
         [] \<Rightarrow> None
       | data # rest \<Rightarrow>
           do {
             let ctx = ctx\<lparr>cr := data\<rparr>;
             let ctx = ctx\<lparr>cr_stack := rest\<rparr>;
             let (off_x, off_y) =
               (if cr ctx = initial_cr ctx then (offset_x ctx, offset_y ctx) else (0, 0));
             let ctx = cairo (CAIRO_IDENTITY_MATRIX (cr ctx)) ctx;
             let ctx = cairo (CAIRO_SET_SOURCE_SURFACE (cr ctx) surface off_x off_y) ctx;
             ctx \<leftarrow>
               (case lateclip of
                  None \<Rightarrow> Some ctx
                | Some n \<Rightarrow>
                    do {
                      ctx \<leftarrow> rsvg_cairo_clip e ctx n (Some (bbox ctx));
                      rsvg_drawing_ctx_release_node ctx (Some n)
                    });
             let ctx = cairo (CAIRO_SET_OPERATOR (cr ctx) (rsvg_state_get_comp_op st)) ctx;
             Some (ctx, surface, needs_destroy)
           }
     }"

text \<open>
  The statement \<^verbatim>\<open>if (mask) { ... } else if (opacity != 0xFF) ... else ...\<close> of
  \<^verbatim>\<open>rsvg_cairo_pop_render_stack\<close>: the composition of the layer onto the restored target.
\<close>

definition pop_render_stack_composite ::
  "env \<Rightarrow> RsvgDrawingCtx \<Rightarrow> RsvgState \<Rightarrow> RsvgDrawingCtx option" where
  "pop_render_stack_composite e ctx st =
     (case rsvg_state_get_mask st of
        Some mask_url \<Rightarrow>
          do {
            (node, ctx) \<leftarrow> rsvg_drawing_ctx_acquire_node_of_type e ctx (Some mask_url)
                              RSVG_NODE_TYPE_MASK;
            case node of
              None \<Rightarrow> Some ctx
            | Some n \<Rightarrow>
                do {
                  ctx \<leftarrow> rsvg_cairo_generate_mask e (cr ctx) n ctx;
                  rsvg_drawing_ctx_release_node ctx (Some n)
                }
          }
      | None \<Rightarrow>
          if rsvg_state_get_opacity st \<noteq> 0xFF
          then Some (cairo (CAIRO_PAINT_WITH_ALPHA (cr ctx)
                              (real (unat (rsvg_state_get_opacity st)) / 255)) ctx)
          else Some (cairo (CAIRO_PAINT (cr ctx)) ctx))"

text \<open>The end of \<^verbatim>\<open>rsvg_cairo_pop_render_stack\<close>, from \<^verbatim>\<open>cairo_destroy (child_cr)\<close>.\<close>

definition pop_render_stack_finish ::
  "env \<Rightarrow> RsvgDrawingCtx \<Rightarrow> cairo_t \<Rightarrow> cairo_surface_t \<Rightarrow> bool \<Rightarrow> RsvgDrawingCtx option" where
  "pop_render_stack_finish e ctx child_cr surface needs_destroy =
     do {
       let ctx = cairo (CAIRO_DESTROY child_cr) ctx;
       ctx \<leftarrow> pop_bounding_box e ctx;
       Some (if needs_destroy then cairo (CAIRO_SURFACE_DESTROY surface) ctx else ctx)
     }"

text \<open>\<^verbatim>\<open>rsvg_cairo_pop_render_stack\<close>: the four parts in the order of the source.\<close>

definition rsvg_cairo_pop_render_stack :: "env \<Rightarrow> RsvgDrawingCtx \<Rightarrow> RsvgDrawingCtx option" where
  "rsvg_cairo_pop_render_stack e ctx =
     do {
       let child_cr = cr ctx;
       let st = state ctx;
       (ctx, lateclip) \<leftarrow> pop_render_stack_clip e ctx;
       if render_stack_fast_path st (lateclip \<noteq> None) then Some ctx
       else do {
         (ctx, surface, needs_destroy) \<leftarrow> pop_render_stack_restore e ctx st child_cr lateclip;
         ctx \<leftarrow> pop_render_stack_composite e ctx st;
         pop_render_stack_finish e ctx child_cr surface needs_destroy
       }
     }"

definition rsvg_cairo_pop_discrete_layer ::
  "env \<Rightarrow> RsvgDrawingCtx \<Rightarrow> bool \<Rightarrow> RsvgDrawingCtx option" where
  "rsvg_cairo_pop_discrete_layer e ctx clipping =
     (if \<not> clipping
      then do {
        ctx \<leftarrow> rsvg_cairo_pop_render_stack e ctx;
        Some (cairo (CAIRO_RESTORE (cr ctx)) ctx)
      }
      else Some ctx)"

section \<open>Pixel formats\<close>

text \<open>
  The macro \<^verbatim>\<open>MULT(d,c,a,t)\<close> of \<^verbatim>\<open>rsvg_cairo_surface_from_pixbuf\<close>: \<open>c\<close> and \<open>a\<close> are bytes, \<open>t\<close>
  is a \<^verbatim>\<open>guint\<close> and the result is stored in a byte.
\<close>

definition MULT :: "guint8 \<Rightarrow> guint8 \<Rightarrow> guint8" where
  "MULT c a =
     (let t = (ucast c * ucast a + 0x7f :: guint32)
      in ucast (drop_bit 8 (drop_bit 8 t + t)))"

text \<open>
  One pixel of the four-channel branch of \<^verbatim>\<open>rsvg_cairo_surface_from_pixbuf\<close>: the bytes
  \<open>p[0..3]\<close> of the pixbuf are red, green, blue and alpha. The four bytes it writes are
  given as the 32-bit value they form in host byte order, which is how \<^verbatim>\<open>convert_alpha\<close>
  reads them; both branches of \<^verbatim>\<open>#if G_BYTE_ORDER == G_LITTLE_ENDIAN\<close> write this value.
\<close>

definition surface_from_pixbuf_pixel ::
  "guint8 \<times> guint8 \<times> guint8 \<times> guint8 \<Rightarrow> guint32" where
  "surface_from_pixbuf_pixel p =
     (case p of (p0, p1, p2, p3) \<Rightarrow>
        push_bit 24 (ucast p3) OR push_bit 16 (ucast (MULT p0 p3)) OR
        push_bit 8 (ucast (MULT p1 p3)) OR ucast (MULT p2 p3))"

text \<open>Unsigned division of C: dividing by zero is undefined behaviour, here \<open>None\<close>.\<close>

definition c_udiv :: "guint32 \<Rightarrow> guint32 \<Rightarrow> guint32 option" where
  "c_udiv n d = (if d = 0 then None else Some (n div d))"

text \<open>
  One iteration of the inner loop of \<^verbatim>\<open>convert_alpha\<close>: from the pixel \<open>src[x]\<close> to the four
  bytes \<open>dest_data[x * 4 + 0..3]\<close>. The quotients are \<^verbatim>\<open>guint\<close> values stored in bytes.
\<close>

definition convert_alpha_pixel ::
  "guint32 \<Rightarrow> (guint8 \<times> guint8 \<times> guint8 \<times> guint8) option" where
  "convert_alpha_pixel src =
     (let alpha = drop_bit 24 src in
      if alpha = 0 then Some (0, 0, 0, ucast alpha)
      else do {
        d0 \<leftarrow> c_udiv (drop_bit 16 (src AND 0xff0000) * 255 + alpha div 2) alpha;
        d1 \<leftarrow> c_udiv (drop_bit 8 (src AND 0x00ff00) * 255 + alpha div 2) alpha;
        d2 \<leftarrow> c_udiv (drop_bit 0 (src AND 0x0000ff) * 255 + alpha div 2) alpha;
        Some (ucast d0, ucast d1, ucast d2, ucast alpha)
      })"

section \<open>A small document and environment\<close>

text \<open>
  A concrete context and environment, used to evaluate the functions: the document
  defines a clip path (node 10), a mask (node 11), a filter (node 12) and a clip path in
  \<^verbatim>\<open>objectBoundingBox\<close> units (node 13); drawing the children of a node marks both bounding
  boxes as no longer empty.
\<close>

definition example_matrix :: cairo_matrix_t where
  "example_matrix = \<lparr>xx = 1, yx = 0, xy = 0, yy = 1, x0 = 0, y0 = 0\<rparr>"

definition example_bbox :: RsvgBbox where
  "example_bbox =
     \<lparr>bbox_rect = \<lparr>rect_x = 0, rect_y = 0, rect_width = 0, rect_height = 0\<rparr>,
      bbox_affine = example_matrix, bbox_virgin = True\<rparr>"

definition example_state :: RsvgState where
  "example_state =
     \<lparr>rsvg_state_get_clip_path = None, rsvg_state_get_filter = None,
      rsvg_state_get_mask = None, rsvg_state_get_opacity = 0xFF,
      rsvg_state_get_comp_op = CAIRO_OPERATOR_OVER,
      rsvg_state_get_enable_background = RSVG_ENABLE_BACKGROUND_ACCUMULATE,
      rsvg_state_get_affine = example_matrix\<rparr>"

definition example_ctx :: RsvgDrawingCtx where
  "example_ctx =
     \<lparr>cr = 1, initial_cr = 1, cr_stack = [], surfaces_stack = [],
      state = example_state,
      defs = [''#clip'' \<mapsto> 10, ''#mask'' \<mapsto> 11, ''#filter'' \<mapsto> 12, ''#bbclip'' \<mapsto> 13],
      vb = \<lparr>vb_rect = \<lparr>rect_x = 0, rect_y = 0, rect_width = 100, rect_height = 100\<rparr>,
            vb_active = True\<rparr>,
      vb_stack = [], acquired_nodes = [],
      offset_x = 0, offset_y = 0, width = 100, height = 100,
      bbox = example_bbox, ink_bbox = example_bbox, bb_stack = [], ink_bb_stack = [],
      node_state = (\<lambda>_. example_state), cairo_log = [], next_handle = 2,
      cairo_target = (\<lambda>_. 0), surface_data = (\<lambda>_. []), criticals = 0\<rparr>"

definition example_env :: env where
  "example_env =
     \<lparr>rsvg_node_get_type =
        (\<lambda>n. if n = 10 \<or> n = 13 then RSVG_NODE_TYPE_CLIP_PATH
              else if n = 11 then RSVG_NODE_TYPE_MASK
              else if n = 12 then RSVG_NODE_TYPE_FILTER else RSVG_NODE_TYPE_OTHER),
      rsvg_node_clip_path_get_units =
        (\<lambda>n. if n = 13 then objectBoundingBox else userSpaceOnUse),
      rsvg_node_mask_get_units = (\<lambda>_. userSpaceOnUse),
      rsvg_node_mask_get_content_units = (\<lambda>_. userSpaceOnUse),
      rsvg_node_mask_get_x = (\<lambda>_. RsvgLength 0),
      rsvg_node_mask_get_y = (\<lambda>_. RsvgLength 0),
      rsvg_node_mask_get_width = (\<lambda>_. RsvgLength 1),
      rsvg_node_mask_get_height = (\<lambda>_. RsvgLength 1),
      rsvg_length_normalize = (\<lambda>l _. case l of RsvgLength x \<Rightarrow> x),
      rsvg_drawing_ctx_state_push = Some,
      rsvg_drawing_ctx_state_pop = Some,
      rsvg_node_draw_children =
        (\<lambda>_ ctx _ _. Some (ctx\<lparr>bbox := (bbox ctx)\<lparr>bbox_virgin := False\<rparr>,
                                 ink_bbox := (ink_bbox ctx)\<lparr>bbox_virgin := False\<rparr>\<rparr>)),
      rsvg_cairo_add_clipping_rect = (\<lambda>ctx _ _ _ _ _. Some ctx),
      rsvg_filter_render = (\<lambda>_ output ctx. Some (output, ctx)),
      rsvg_bbox_init = (\<lambda>m. example_bbox\<lparr>bbox_affine := m\<rparr>),
      rsvg_bbox_insert = (\<lambda>dst src. if bbox_virgin src then dst else src),
      cairo_matrix_multiply = (\<lambda>a b. b),
      cairo_surface_status = (\<lambda>_. CAIRO_STATUS_SUCCESS),
      cairo_image_surface_get_stride = (\<lambda>_. 400)\<rparr>"

text \<open>
  An environment in which drawing the children of a node paints six pixels into the
  surface of the current cairo context, with a row stride of 12 bytes (three pixels), and
  a context of width 2 and height 2: the third pixel of each row is padding.
\<close>

definition example_mask_env :: env where
  "example_mask_env =
     example_env\<lparr>rsvg_node_draw_children :=
                   (\<lambda>_ ctx _ _. Some (ctx\<lparr>surface_data := (surface_data ctx)
                      (cairo_target ctx (cr ctx) :=
                         [0x00FFFFFF, 0x00000000, 0x12345678,
                          0x00020202, 0x00010000, 0x9ABCDEF0])\<rparr>)),
                 cairo_image_surface_get_stride := (\<lambda>_. 12)\<rparr>"

definition example_mask_ctx :: RsvgDrawingCtx where
  "example_mask_ctx = example_ctx\<lparr>width := 2, height := 2\<rparr>"

text \<open>
  A context inside a layer: the layer's cairo context is 5, on the surface 4, and the
  target and bounding boxes of the enclosing level are on the stacks. The argument is the
  \<open>mask\<close> property of the style state.
\<close>

definition example_layer_ctx :: "string option \<Rightarrow> RsvgDrawingCtx" where
  "example_layer_ctx m =
     example_ctx\<lparr>state := example_state\<lparr>rsvg_state_get_mask := m\<rparr>,
                 cr := 5, cr_stack := [1], cairo_target := (\<lambda>_. 0)(5 := 4),
                 bb_stack := [example_bbox], ink_bb_stack := [example_bbox]\<rparr>"

section \<open>Properties of node acquisition\<close>

lemma acquire_node_cases:
  "rsvg_drawing_ctx_acquire_node ctx url = (None, ctx) \<or>
   (\<exists>n. rsvg_drawing_ctx_acquire_node ctx url = (Some n, ctx\<lparr>acquired_nodes := n # acquired_nodes ctx\<rparr>)
        \<and> n \<notin> set (acquired_nodes ctx))"
  by (auto simp: rsvg_drawing_ctx_acquire_node_def split: option.splits)

lemma release_head:
  "rsvg_drawing_ctx_release_node (ctx\<lparr>acquired_nodes := n # acquired_nodes ctx\<rparr>) (Some n) = Some ctx"
  by (simp add: rsvg_drawing_ctx_release_node_def)

lemma acquire_node_of_type_eq:
  "rsvg_drawing_ctx_acquire_node_of_type e ctx url ty =
     (case rsvg_drawing_ctx_acquire_node ctx url of
        (None, ctx1) \<Rightarrow> Some (None, ctx)
      | (Some n, ctx1) \<Rightarrow>
          if rsvg_node_get_type e n \<noteq> ty then Some (None, ctx) else Some (Some n, ctx1))"
  using acquire_node_cases [of ctx url]
  by (auto simp: rsvg_drawing_ctx_acquire_node_of_type_def release_head
      rsvg_drawing_ctx_release_node_def)

lemma acquire_node_of_type_cases:
  "rsvg_drawing_ctx_acquire_node_of_type e ctx url ty = Some (None, ctx) \<or>
   (\<exists>n. rsvg_drawing_ctx_acquire_node_of_type e ctx url ty =
           Some (Some n, ctx\<lparr>acquired_nodes := n # acquired_nodes ctx\<rparr>)
        \<and> rsvg_node_get_type e n = ty \<and> n \<notin> set (acquired_nodes ctx))"
  using acquire_node_cases [of ctx url]
  by (auto simp: acquire_node_of_type_eq)

lemma acquire_node_of_type_None_iff:
  "rsvg_drawing_ctx_acquire_node_of_type e ctx (Some u) ty = Some (None, ctx) \<longleftrightarrow>
     (case defs ctx u of
        None \<Rightarrow> True
      | Some n \<Rightarrow> n \<in> set (acquired_nodes ctx) \<or> rsvg_node_get_type e n \<noteq> ty)"
  by (auto simp: acquire_node_of_type_eq rsvg_drawing_ctx_acquire_node_def split: option.splits)

lemma acquire_node_of_type_NoneD:
  "rsvg_drawing_ctx_acquire_node_of_type e ctx url ty = Some (None, ctx1) \<Longrightarrow> ctx1 = ctx"
  using acquire_node_of_type_cases [of e ctx url ty] by auto

lemma acquire_node_fst_iff:
  "fst (rsvg_drawing_ctx_acquire_node ctx (Some u)) = Some n \<longleftrightarrow>
     defs ctx u = Some n \<and> n \<notin> set (acquired_nodes ctx)"
  by (auto simp: rsvg_drawing_ctx_acquire_node_def split: option.splits)

lemma acquire_node_cong:
  "defs ctx2 = defs ctx \<Longrightarrow> acquired_nodes ctx2 = acquired_nodes ctx \<Longrightarrow>
   fst (rsvg_drawing_ctx_acquire_node ctx2 url) = fst (rsvg_drawing_ctx_acquire_node ctx url)"
  by (simp add: rsvg_drawing_ctx_acquire_node_def split: option.splits)

lemma release_node_stacks:
  "rsvg_drawing_ctx_release_node ctx n = Some ctx' \<Longrightarrow>
     cr_stack ctx' = cr_stack ctx \<and> surfaces_stack ctx' = surfaces_stack ctx"
  by (auto simp: rsvg_drawing_ctx_release_node_def g_return_if_fail_warning_def
      split: option.splits list.splits if_splits)

text \<open>
  Claim C1. A call to \<^verbatim>\<open>rsvg_drawing_ctx_acquire_node\<close> whose identifier resolves to a node
  that is already in \<open>acquired_nodes\<close> returns \<^verbatim>\<open>NULL\<close> and leaves the context unchanged; so
  does a call with no identifier or with an identifier that \<open>defs\<close> does not know. Every
  other call returns the resolved node and pushes it on the front of \<open>acquired_nodes\<close>, and
  a call that returns a node is such a call.
\<close>

theorem acquire_node_cycle_guard:
  "(defs ctx u = Some node \<and> node \<in> set (acquired_nodes ctx) \<longrightarrow>
      rsvg_drawing_ctx_acquire_node ctx (Some u) = (None, ctx)) \<and>
   rsvg_drawing_ctx_acquire_node ctx None = (None, ctx) \<and>
   (defs ctx u = None \<longrightarrow> rsvg_drawing_ctx_acquire_node ctx (Some u) = (None, ctx)) \<and>
   (defs ctx u = Some node \<and> node \<notin> set (acquired_nodes ctx) \<longrightarrow>
      rsvg_drawing_ctx_acquire_node ctx (Some u) =
        (Some node, ctx\<lparr>acquired_nodes := node # acquired_nodes ctx\<rparr>)) \<and>
   (rsvg_drawing_ctx_acquire_node ctx url = (Some node, ctx') \<longrightarrow>
      ctx' = ctx\<lparr>acquired_nodes := node # acquired_nodes ctx\<rparr> \<and>
      node \<notin> set (acquired_nodes ctx) \<and> (\<exists>u. url = Some u \<and> defs ctx u = Some node))"
  by (auto simp: rsvg_drawing_ctx_acquire_node_def split: option.splits if_splits)

text \<open>
  The three cases on the example document: a node that is already acquired, an unknown
  identifier, and a successful acquisition.
\<close>

theorem acquire_node_cycle_guard_witness:
  "rsvg_drawing_ctx_acquire_node (example_ctx\<lparr>acquired_nodes := [10, 11]\<rparr>) (Some ''#mask'') =
     (None, example_ctx\<lparr>acquired_nodes := [10, 11]\<rparr>) \<and>
   rsvg_drawing_ctx_acquire_node example_ctx (Some ''#unknown'') = (None, example_ctx) \<and>
   rsvg_drawing_ctx_acquire_node (example_ctx\<lparr>acquired_nodes := [10]\<rparr>) (Some ''#mask'') =
     (Some 11, example_ctx\<lparr>acquired_nodes := [11, 10]\<rparr>)"
  using acquire_node_cycle_guard [of "example_ctx\<lparr>acquired_nodes := [10, 11]\<rparr>" "''#mask''" 11]
    acquire_node_cycle_guard [of example_ctx "''#unknown''"]
    acquire_node_cycle_guard [of "example_ctx\<lparr>acquired_nodes := [10]\<rparr>" "''#mask''" 11]
  by (simp add: example_ctx_def)

text \<open>
  Claim C2, as amended. Releasing the node at the front of \<open>acquired_nodes\<close> pops exactly
  that entry. Releasing any other node, or releasing a node when nothing is acquired, logs
  a critical message and returns with \<open>acquired_nodes\<close> unchanged: the function does not
  abort. Releasing \<^verbatim>\<open>NULL\<close> does nothing.
\<close>

theorem release_node_lifo:
  "(acquired_nodes ctx = node # rest \<longrightarrow>
      rsvg_drawing_ctx_release_node ctx (Some node) = Some (ctx\<lparr>acquired_nodes := rest\<rparr>)) \<and>
   ((\<forall>rest. acquired_nodes ctx \<noteq> node # rest) \<longrightarrow>
      rsvg_drawing_ctx_release_node ctx (Some node) =
        Some (ctx\<lparr>criticals := Suc (criticals ctx)\<rparr>)) \<and>
   rsvg_drawing_ctx_release_node ctx None = Some ctx"
  by (auto simp: rsvg_drawing_ctx_release_node_def g_return_if_fail_warning_def split: list.splits)

text \<open>
  Releasing the most recent node, an older node, and a node when nothing is acquired.
\<close>

theorem release_node_lifo_witness:
  "rsvg_drawing_ctx_release_node (example_ctx\<lparr>acquired_nodes := [11, 10]\<rparr>) (Some 11) =
     Some (example_ctx\<lparr>acquired_nodes := [10]\<rparr>) \<and>
   rsvg_drawing_ctx_release_node (example_ctx\<lparr>acquired_nodes := [11, 10]\<rparr>) (Some 10) =
     Some (example_ctx\<lparr>acquired_nodes := [11, 10], criticals := 1\<rparr>) \<and>
   rsvg_drawing_ctx_release_node example_ctx (Some 10) = Some (example_ctx\<lparr>criticals := 1\<rparr>)"
  using release_node_lifo [of "example_ctx\<lparr>acquired_nodes := [11, 10]\<rparr>" 11 "[10]"]
    release_node_lifo [of "example_ctx\<lparr>acquired_nodes := [11, 10]\<rparr>" 10]
    release_node_lifo [of example_ctx 10]
  by (simp add: example_ctx_def)

text \<open>
  Claim C2 as stated fails: with nodes 11 and 10 acquired, in this order from the front,
  releasing node 10 returns normally, with one critical message logged and both nodes
  still acquired.
\<close>

theorem release_node_counterexample:
  "rsvg_drawing_ctx_release_node (example_ctx\<lparr>acquired_nodes := [11, 10]\<rparr>) (Some 10) =
     Some (example_ctx\<lparr>acquired_nodes := [11, 10], criticals := 1\<rparr>) \<and>
   rsvg_drawing_ctx_release_node (example_ctx\<lparr>acquired_nodes := [11, 10]\<rparr>) (Some 10) \<noteq> None"
  by (simp add: rsvg_drawing_ctx_release_node_def g_return_if_fail_warning_def example_ctx_def)

text \<open>
  Claim C8. When the identifier resolves to a node of another kind than the requested one,
  \<^verbatim>\<open>rsvg_drawing_ctx_acquire_node_of_type\<close> returns \<^verbatim>\<open>NULL\<close> and the context is the one before
  the call: the node it acquired has been released again. In every other case it returns
  what \<^verbatim>\<open>rsvg_drawing_ctx_acquire_node\<close> returns.
\<close>

theorem acquire_node_of_type_atomic:
  "(rsvg_drawing_ctx_acquire_node ctx url = (Some node, ctx1) \<and> rsvg_node_get_type e node \<noteq> ty \<longrightarrow>
      rsvg_drawing_ctx_acquire_node_of_type e ctx url ty = Some (None, ctx)) \<and>
   (rsvg_drawing_ctx_acquire_node ctx url = (Some node, ctx1) \<and> rsvg_node_get_type e node = ty \<longrightarrow>
      rsvg_drawing_ctx_acquire_node_of_type e ctx url ty =
        Some (rsvg_drawing_ctx_acquire_node ctx url)) \<and>
   (rsvg_drawing_ctx_acquire_node ctx url = (None, ctx1) \<longrightarrow>
      rsvg_drawing_ctx_acquire_node_of_type e ctx url ty =
        Some (rsvg_drawing_ctx_acquire_node ctx url))"
  using acquire_node_cases [of ctx url]
  by (auto simp: acquire_node_of_type_eq)

text \<open>
  A clip path requested as a mask, a mask requested as a mask, and an unknown identifier.
\<close>

theorem acquire_node_of_type_atomic_witness:
  "rsvg_drawing_ctx_acquire_node_of_type example_env example_ctx (Some ''#clip'') RSVG_NODE_TYPE_MASK =
     Some (None, example_ctx) \<and>
   rsvg_drawing_ctx_acquire_node_of_type example_env example_ctx (Some ''#mask'') RSVG_NODE_TYPE_MASK =
     Some (Some 11, example_ctx\<lparr>acquired_nodes := [11]\<rparr>) \<and>
   rsvg_drawing_ctx_acquire_node_of_type example_env example_ctx (Some ''#unknown'') RSVG_NODE_TYPE_MASK =
     Some (None, example_ctx)"
  using acquire_node_of_type_atomic [of example_ctx "Some ''#clip''" 10
      "example_ctx\<lparr>acquired_nodes := [10]\<rparr>" example_env RSVG_NODE_TYPE_MASK]
    acquire_node_of_type_atomic [of example_ctx "Some ''#mask''" 11
      "example_ctx\<lparr>acquired_nodes := [11]\<rparr>" example_env RSVG_NODE_TYPE_MASK]
    acquire_node_of_type_atomic [of example_ctx "Some ''#unknown''" 0 example_ctx example_env RSVG_NODE_TYPE_MASK]
  by (simp add: example_ctx_def example_env_def rsvg_drawing_ctx_acquire_node_def)

section \<open>Properties of clip-path evaluation\<close>

lemma rsvg_cairo_clip_bbox:
  "rsvg_cairo_clip e ctx node bb = Some ctx' \<Longrightarrow>
     bbox ctx' = bbox ctx \<and> ink_bbox ctx' = ink_bbox ctx"
  by (auto simp: rsvg_cairo_clip_def g_assert_def cairo_def rsvg_state_set_affine_def Let_def
      split: Option.bind_splits if_splits option.splits)

lemma rsvg_cairo_clip_returns:
  assumes t: "rsvg_node_get_type e node = RSVG_NODE_TYPE_CLIP_PATH"
    and u: "rsvg_node_clip_path_get_units e node = objectBoundingBox \<longrightarrow> bb = Some b"
    and c1: "ctx1 = (if rsvg_node_clip_path_get_units e node = objectBoundingBox
            then rsvg_state_set_affine ctx node
                   (cairo_matrix_multiply e
                      (cairo_matrix_init (rect_width (bbox_rect b)) 0 0 (rect_height (bbox_rect b))
                         (rect_x (bbox_rect b)) (rect_y (bbox_rect b)))
                      (rsvg_state_get_affine (node_state ctx node)))
            else ctx)"
    and p: "rsvg_drawing_ctx_state_push e ctx1 = Some ctx2"
    and d: "rsvg_node_draw_children e node ctx2 0 True = Some ctx3"
    and q: "rsvg_drawing_ctx_state_pop e ctx3 = Some ctx4"
    and s: "cr_stack ctx4 = cr_stack ctx" "surfaces_stack ctx4 = surfaces_stack ctx"
  shows "\<exists>ctx'. rsvg_cairo_clip e ctx node bb = Some ctx' \<and>
         bbox ctx' = bbox ctx \<and> ink_bbox ctx' = ink_bbox ctx \<and>
         cairo_log ctx' = cairo_log ctx4 @ [CAIRO_CLIP (cr ctx4)]"
proof (cases "rsvg_node_clip_path_get_units e node = objectBoundingBox")
  case True
  with u have bb: "bb = Some b" by simp
  have f: "cr_stack ctx1 = cr_stack ctx" "surfaces_stack ctx1 = surfaces_stack ctx"
    "bbox ctx1 = bbox ctx" "ink_bbox ctx1 = ink_bbox ctx"
    by (simp_all add: c1 True rsvg_state_set_affine_def)
  have c1': "rsvg_state_set_affine ctx node
                   (cairo_matrix_multiply e
                      (cairo_matrix_init (rect_width (bbox_rect b)) 0 0 (rect_height (bbox_rect b))
                         (rect_x (bbox_rect b)) (rect_y (bbox_rect b)))
                      (rsvg_state_get_affine (node_state ctx node))) = ctx1"
    by (simp add: c1 True)
  have "rsvg_cairo_clip e ctx node bb =
    Some (cairo (CAIRO_CLIP (cr (rsvg_state_set_affine ctx4 node (rsvg_state_get_affine (node_state ctx node)))))
      ((rsvg_state_set_affine ctx4 node (rsvg_state_get_affine (node_state ctx node)))\<lparr>bbox := bbox ctx, ink_bbox := ink_bbox ctx\<rparr>))"
    unfolding rsvg_cairo_clip_def
    by (simp add: t True bb g_assert_def Let_def c1' p d q s f del: cairo_matrix_t.simps) 
       (simp add: rsvg_state_set_affine_def s)
  then show ?thesis by (simp add: cairo_def rsvg_state_set_affine_def)
next
  case False
  then have c1': "ctx1 = ctx" by (simp add: c1)
  have "rsvg_cairo_clip e ctx node bb =
    Some (cairo (CAIRO_CLIP (cr ctx4)) (ctx4\<lparr>bbox := bbox ctx, ink_bbox := ink_bbox ctx\<rparr>))"
    unfolding rsvg_cairo_clip_def
    using p d q s by (simp add: t False g_assert_def Let_def c1')
  then show ?thesis by (simp add: cairo_def)
qed

lemma rsvg_cairo_clip_stacks:
  "rsvg_cairo_clip e ctx node bb = Some ctx' \<Longrightarrow>
     cr_stack ctx' = cr_stack ctx \<and> surfaces_stack ctx' = surfaces_stack ctx"
  by (auto simp: rsvg_cairo_clip_def g_assert_def cairo_def rsvg_state_set_affine_def Let_def
      split: Option.bind_splits if_splits option.splits)

text \<open>
  Claim C9. Whenever \<^verbatim>\<open>rsvg_cairo_clip\<close> returns, the bounding box and the ink bounding box
  of the context are the ones it had before the call, whatever the drawing of the clip
  path's children did to them. It returns whenever the node is a clip path, a bounding box
  is given in \<^verbatim>\<open>objectBoundingBox\<close> units, the state push, the drawing of the children and
  the state pop return, and they leave \<open>cr_stack\<close> and \<open>surfaces_stack\<close> as they were.
\<close>

theorem rsvg_cairo_clip_restores_bounding_boxes:
  "(rsvg_cairo_clip e ctx node bb = Some ctx' \<longrightarrow>
      bbox ctx' = bbox ctx \<and> ink_bbox ctx' = ink_bbox ctx) \<and>
   (rsvg_node_get_type e node = RSVG_NODE_TYPE_CLIP_PATH \<and>
    (rsvg_node_clip_path_get_units e node = objectBoundingBox \<longrightarrow> bb = Some b) \<and>
    ctx1 = (if rsvg_node_clip_path_get_units e node = objectBoundingBox
            then rsvg_state_set_affine ctx node
                   (cairo_matrix_multiply e
                      (cairo_matrix_init (rect_width (bbox_rect b)) 0 0 (rect_height (bbox_rect b))
                         (rect_x (bbox_rect b)) (rect_y (bbox_rect b)))
                      (rsvg_state_get_affine (node_state ctx node)))
            else ctx) \<and>
    rsvg_drawing_ctx_state_push e ctx1 = Some ctx2 \<and>
    rsvg_node_draw_children e node ctx2 0 True = Some ctx3 \<and>
    rsvg_drawing_ctx_state_pop e ctx3 = Some ctx4 \<and>
    cr_stack ctx4 = cr_stack ctx \<and> surfaces_stack ctx4 = surfaces_stack ctx \<longrightarrow>
      (\<exists>ctx'. rsvg_cairo_clip e ctx node bb = Some ctx' \<and>
         bbox ctx' = bbox ctx \<and> ink_bbox ctx' = ink_bbox ctx \<and>
         cairo_log ctx' = cairo_log ctx4 @ [CAIRO_CLIP (cr ctx4)]))"
  using rsvg_cairo_clip_bbox [of e ctx node bb ctx']
    rsvg_cairo_clip_returns [of e node bb b ctx1 ctx ctx2 ctx3 ctx4]
  by blast

text \<open>
  In the example environment the drawing of the children changes both boxes; after
  \<^verbatim>\<open>rsvg_cairo_clip\<close> they are the original ones, in both kinds of units.
\<close>

theorem rsvg_cairo_clip_restores_bounding_boxes_witness:
  "rsvg_node_draw_children example_env 10 example_ctx 0 True =
     Some (example_ctx\<lparr>bbox := example_bbox\<lparr>bbox_virgin := False\<rparr>,
                       ink_bbox := example_bbox\<lparr>bbox_virgin := False\<rparr>\<rparr>) \<and>
   rsvg_cairo_clip example_env example_ctx 10 None =
     Some (example_ctx\<lparr>cairo_log := [CAIRO_CLIP 1]\<rparr>) \<and>
   bbox (example_ctx\<lparr>cairo_log := [CAIRO_CLIP 1]\<rparr>) = example_bbox \<and>
   ink_bbox (example_ctx\<lparr>cairo_log := [CAIRO_CLIP 1]\<rparr>) = example_bbox \<and>
   (\<exists>ctx'. rsvg_cairo_clip example_env example_ctx 13 (Some example_bbox) = Some ctx' \<and>
      bbox ctx' = example_bbox \<and> ink_bbox ctx' = example_bbox \<and>
      cairo_log ctx' = [CAIRO_CLIP 1])"
proof -
  have e1: "rsvg_cairo_clip example_env example_ctx 10 None =
     Some (example_ctx\<lparr>cairo_log := [CAIRO_CLIP 1]\<rparr>)"
    by (simp add: example_env_def example_ctx_def rsvg_cairo_clip_def g_assert_def cairo_def
      rsvg_state_set_affine_def cairo_matrix_init_def)
  have d: "rsvg_node_draw_children example_env 10 example_ctx 0 True =
     Some (example_ctx\<lparr>bbox := example_bbox\<lparr>bbox_virgin := False\<rparr>,
                       ink_bbox := example_bbox\<lparr>bbox_virgin := False\<rparr>\<rparr>)"
    by (simp add: example_env_def example_ctx_def)
  have b: "bbox example_ctx = example_bbox" "ink_bbox example_ctx = example_bbox"
    by (simp_all add: example_ctx_def)
  define c1 where "c1 = rsvg_state_set_affine example_ctx 13
      (cairo_matrix_multiply example_env
         (cairo_matrix_init (rect_width (bbox_rect example_bbox)) 0 0
            (rect_height (bbox_rect example_bbox))
            (rect_x (bbox_rect example_bbox)) (rect_y (bbox_rect example_bbox)))
         (rsvg_state_get_affine (node_state example_ctx 13)))"
  define c3 where "c3 = c1\<lparr>bbox := (bbox c1)\<lparr>bbox_virgin := False\<rparr>,
                           ink_bbox := (ink_bbox c1)\<lparr>bbox_virgin := False\<rparr>\<rparr>"
  have h: "rsvg_node_get_type example_env 13 = RSVG_NODE_TYPE_CLIP_PATH"
    "rsvg_node_clip_path_get_units example_env 13 = objectBoundingBox"
    "rsvg_drawing_ctx_state_push example_env c1 = Some c1"
    "rsvg_node_draw_children example_env 13 c1 0 True = Some c3"
    "rsvg_drawing_ctx_state_pop example_env c3 = Some c3"
    by (simp_all add: example_env_def c3_def)
  have s: "cr_stack c3 = cr_stack example_ctx" "surfaces_stack c3 = surfaces_stack example_ctx"
    "cairo_log c3 = []" "cr c3 = 1"
    by (simp_all add: c3_def c1_def rsvg_state_set_affine_def example_ctx_def)
  have "\<exists>ctx'. rsvg_cairo_clip example_env example_ctx 13 (Some example_bbox) = Some ctx' \<and>
      bbox ctx' = bbox example_ctx \<and> ink_bbox ctx' = ink_bbox example_ctx \<and>
      cairo_log ctx' = cairo_log c3 @ [CAIRO_CLIP (cr c3)]"
    using rsvg_cairo_clip_restores_bounding_boxes [THEN conjunct2, rule_format,
        where e = example_env and node = 13 and bb = "Some example_bbox" and b = example_bbox
          and ctx = example_ctx and ?ctx1.0 = c1 and ?ctx2.0 = c1 and ?ctx3.0 = c3 and ?ctx4.0 = c3]
      h s by (simp add: c1_def)
  then have e2: "\<exists>ctx'. rsvg_cairo_clip example_env example_ctx 13 (Some example_bbox) = Some ctx' \<and>
      bbox ctx' = example_bbox \<and> ink_bbox ctx' = example_bbox \<and> cairo_log ctx' = [CAIRO_CLIP 1]"
    by (simp add: b s)
  from rsvg_cairo_clip_restores_bounding_boxes [THEN conjunct1, rule_format, OF e1]
  show ?thesis using e1 d b e2 by simp
qed

section \<open>Properties of the render stack\<close>

lemma push_render_stack_clip_stacks:
  assumes "push_render_stack_clip e ctx = Some (ctx1, lateclip)"
  shows "cr_stack ctx1 = cr_stack ctx \<and> surfaces_stack ctx1 = surfaces_stack ctx"
proof (cases "rsvg_state_get_clip_path (state ctx)")
  case None
  with assms show ?thesis by (simp add: push_render_stack_clip_def)
next
  case (Some u)
  from acquire_node_of_type_cases [of e ctx "Some u" RSVG_NODE_TYPE_CLIP_PATH]
  show ?thesis
  proof (elim disjE exE conjE)
    assume "rsvg_drawing_ctx_acquire_node_of_type e ctx (Some u) RSVG_NODE_TYPE_CLIP_PATH = Some (None, ctx)"
    with assms Some show ?thesis by (simp add: push_render_stack_clip_def)
  next
    fix n
    assume a: "rsvg_drawing_ctx_acquire_node_of_type e ctx (Some u) RSVG_NODE_TYPE_CLIP_PATH =
      Some (Some n, ctx\<lparr>acquired_nodes := n # acquired_nodes ctx\<rparr>)"
    show ?thesis
    proof (cases "rsvg_node_clip_path_get_units e n")
      case userSpaceOnUse
      with assms Some a obtain c where
        c: "rsvg_cairo_clip e (ctx\<lparr>acquired_nodes := n # acquired_nodes ctx\<rparr>) n None = Some c"
        and r: "rsvg_drawing_ctx_release_node c (Some n) = Some ctx1"
        by (auto simp: push_render_stack_clip_def split: Option.bind_splits)
      from rsvg_cairo_clip_stacks [OF c] release_node_stacks [OF r] show ?thesis by simp
    next
      case objectBoundingBox
      with assms Some a show ?thesis
        by (simp add: push_render_stack_clip_def release_head)
    qed
  qed
qed

lemma push_render_stack_clip_lateclip:
  assumes "push_render_stack_clip e ctx = Some (ctx1, lateclip)"
  shows "lateclip \<longleftrightarrow>
     (\<exists>u n. rsvg_state_get_clip_path (state ctx) = Some u \<and>
        fst (rsvg_drawing_ctx_acquire_node ctx (Some u)) = Some n \<and>
        rsvg_node_get_type e n = RSVG_NODE_TYPE_CLIP_PATH \<and>
        rsvg_node_clip_path_get_units e n = objectBoundingBox)"
  using assms acquire_node_cases [of ctx "Some (the (rsvg_state_get_clip_path (state ctx)))"]
  by (auto simp: push_render_stack_clip_def acquire_node_of_type_eq
      split: option.splits Option.bind_splits RsvgCoordUnits.splits if_splits prod.splits)

lemma pop_render_stack_clip_eq:
  "pop_render_stack_clip e ctx =
     (case rsvg_state_get_clip_path (state ctx) of
        None \<Rightarrow> Some (ctx, None)
      | Some u \<Rightarrow>
          (case fst (rsvg_drawing_ctx_acquire_node ctx (Some u)) of
             None \<Rightarrow> Some (ctx, None)
           | Some n \<Rightarrow>
               if rsvg_node_get_type e n = RSVG_NODE_TYPE_CLIP_PATH \<and>
                  rsvg_node_clip_path_get_units e n = objectBoundingBox
               then Some (ctx\<lparr>acquired_nodes := n # acquired_nodes ctx\<rparr>, Some n)
               else Some (ctx, None)))"
proof (cases "rsvg_state_get_clip_path (state ctx)")
  case None
  then show ?thesis by (simp add: pop_render_stack_clip_def)
next
  case (Some u)
  from acquire_node_cases [of ctx "Some u"] show ?thesis
    by (auto simp: Some pop_render_stack_clip_def acquire_node_of_type_eq release_head)
qed

lemma pop_render_stack_fast:
  assumes p: "push_render_stack_clip e ctx = Some (ctx1, lateclip)"
    and f: "render_stack_fast_path (state ctx) lateclip"
    and s: "state ctx2 = state ctx" "defs ctx2 = defs ctx" "acquired_nodes ctx2 = acquired_nodes ctx"
  shows "rsvg_cairo_pop_render_stack e ctx2 = Some ctx2"
proof -
  from f have nl: "\<not> lateclip" by (simp add: render_stack_fast_path_def)
  have "pop_render_stack_clip e ctx2 = Some (ctx2, None)"
    using nl push_render_stack_clip_lateclip [OF p] acquire_node_cong [OF s(2,3)]
    by (auto simp: pop_render_stack_clip_eq s(1) split: option.splits)
  with f nl show ?thesis
    by (simp add: rsvg_cairo_pop_render_stack_def s(1))
qed

lemma push_render_stack_slow:
  assumes p: "push_render_stack_clip e ctx = Some (ctx1, lateclip)"
    and f: "\<not> render_stack_fast_path (state ctx) lateclip"
  shows "\<exists>ctx'. rsvg_cairo_push_render_stack e ctx = Some ctx' \<and>
           cairo_log ctx' = cairo_log ctx1 @
             [if rsvg_state_get_filter (state ctx) = None
              then CAIRO_SURFACE_CREATE_SIMILAR (next_handle ctx1) (cairo_target ctx1 (cr ctx1))
                     (width ctx1) (height ctx1)
              else CAIRO_IMAGE_SURFACE_CREATE (next_handle ctx1) (width ctx1) (height ctx1),
              CAIRO_CREATE (Suc (next_handle ctx1)) (next_handle ctx1),
              CAIRO_SURFACE_DESTROY (next_handle ctx1)] \<and>
           cr ctx' = Suc (next_handle ctx1) \<and> cr_stack ctx' = cr ctx1 # cr_stack ctx1 \<and>
           surfaces_stack ctx' =
             (if rsvg_state_get_filter (state ctx) = None then surfaces_stack ctx1
              else next_handle ctx1 # surfaces_stack ctx1) \<and>
           bb_stack ctx' = bbox ctx1 # bb_stack ctx1 \<and>
           ink_bb_stack ctx' = ink_bbox ctx1 # ink_bb_stack ctx1"
  using p f
  by (cases "rsvg_state_get_filter (state ctx)")
     (simp_all add: rsvg_cairo_push_render_stack_def Let_def cairo_surface_create_similar_def
       cairo_image_surface_create_def cairo_create_def cairo_def push_bounding_box_def)

text \<open>
  Claim C3. Let the clip-path block of \<^verbatim>\<open>rsvg_cairo_push_render_stack\<close> return the context
  \<open>ctx1\<close> and the flag \<open>lateclip\<close>. The flag is set exactly when the clip-path property is set
  and resolves to a node that is not already acquired, is a clip path and has
  \<^verbatim>\<open>objectBoundingBox\<close> units: this is the deferred clip. The block leaves \<open>cr_stack\<close> and
  \<open>surfaces_stack\<close> as they were. If the fast-path condition holds, the function returns
  \<open>ctx1\<close>: nothing is allocated and no stack is pushed; and \<^verbatim>\<open>rsvg_cairo_pop_render_stack\<close>, on
  any context with the same style state, definitions and acquired nodes, returns that
  context unchanged. If the condition fails, the function allocates exactly one surface
  (similar to the target, or an image surface that is also pushed on \<open>surfaces_stack\<close> when
  there is a filter), creates a cairo context on it, pushes the previous one on \<open>cr_stack\<close>
  and pushes both bounding boxes. The block itself returns the context unchanged, with the
  flag unset, when there is no clip path or the reference is unknown, already acquired or
  not a clip path; returns it unchanged, with the flag set, for a clip path in
  \<^verbatim>\<open>objectBoundingBox\<close> units; and for a clip path in \<^verbatim>\<open>userSpaceOnUse\<close> units it applies the
  clip, releases the node and leaves the flag unset. The fast-path condition is: opacity
  \<open>0xFF\<close>, no filter, no mask, no deferred clip, operator OVER, and enable-background
  accumulate.
\<close>

theorem render_stack_fast_path_allocation:
  "(push_render_stack_clip e ctx = Some (ctx1, lateclip) \<longrightarrow>
      (lateclip \<longleftrightarrow>
         (\<exists>u n. rsvg_state_get_clip_path (state ctx) = Some u \<and> defs ctx u = Some n \<and>
            n \<notin> set (acquired_nodes ctx) \<and>
            rsvg_node_get_type e n = RSVG_NODE_TYPE_CLIP_PATH \<and>
            rsvg_node_clip_path_get_units e n = objectBoundingBox)) \<and>
      cr_stack ctx1 = cr_stack ctx \<and> surfaces_stack ctx1 = surfaces_stack ctx \<and>
      (render_stack_fast_path (state ctx) lateclip \<longrightarrow>
         rsvg_cairo_push_render_stack e ctx = Some ctx1) \<and>
      (render_stack_fast_path (state ctx) lateclip \<and> state ctx2 = state ctx \<and>
       defs ctx2 = defs ctx \<and> acquired_nodes ctx2 = acquired_nodes ctx \<longrightarrow>
         rsvg_cairo_pop_render_stack e ctx2 = Some ctx2) \<and>
      (\<not> render_stack_fast_path (state ctx) lateclip \<longrightarrow>
         (\<exists>ctx'. rsvg_cairo_push_render_stack e ctx = Some ctx' \<and>
            cairo_log ctx' = cairo_log ctx1 @
              [if rsvg_state_get_filter (state ctx) = None
               then CAIRO_SURFACE_CREATE_SIMILAR (next_handle ctx1) (cairo_target ctx1 (cr ctx1))
                      (width ctx1) (height ctx1)
               else CAIRO_IMAGE_SURFACE_CREATE (next_handle ctx1) (width ctx1) (height ctx1),
               CAIRO_CREATE (Suc (next_handle ctx1)) (next_handle ctx1),
               CAIRO_SURFACE_DESTROY (next_handle ctx1)] \<and>
            cr ctx' = Suc (next_handle ctx1) \<and> cr_stack ctx' = cr ctx1 # cr_stack ctx1 \<and>
            surfaces_stack ctx' =
              (if rsvg_state_get_filter (state ctx) = None then surfaces_stack ctx1
               else next_handle ctx1 # surfaces_stack ctx1) \<and>
            bb_stack ctx' = bbox ctx1 # bb_stack ctx1 \<and>
            ink_bb_stack ctx' = ink_bbox ctx1 # ink_bb_stack ctx1))) \<and>
   (rsvg_state_get_clip_path (state ctx) = None \<longrightarrow>
      push_render_stack_clip e ctx = Some (ctx, False)) \<and>
   (rsvg_state_get_clip_path (state ctx) = Some u \<and>
    (case defs ctx u of
       None \<Rightarrow> True
     | Some n \<Rightarrow> n \<in> set (acquired_nodes ctx) \<or>
                  rsvg_node_get_type e n \<noteq> RSVG_NODE_TYPE_CLIP_PATH) \<longrightarrow>
      push_render_stack_clip e ctx = Some (ctx, False)) \<and>
   (rsvg_state_get_clip_path (state ctx) = Some u \<and> defs ctx u = Some n \<and>
    n \<notin> set (acquired_nodes ctx) \<and> rsvg_node_get_type e n = RSVG_NODE_TYPE_CLIP_PATH \<and>
    rsvg_node_clip_path_get_units e n = objectBoundingBox \<longrightarrow>
      push_render_stack_clip e ctx = Some (ctx, True)) \<and>
   (rsvg_state_get_clip_path (state ctx) = Some u \<and> defs ctx u = Some n \<and>
    n \<notin> set (acquired_nodes ctx) \<and> rsvg_node_get_type e n = RSVG_NODE_TYPE_CLIP_PATH \<and>
    rsvg_node_clip_path_get_units e n = userSpaceOnUse \<longrightarrow>
      push_render_stack_clip e ctx =
        do {
          c \<leftarrow> rsvg_cairo_clip e (ctx\<lparr>acquired_nodes := n # acquired_nodes ctx\<rparr>) n None;
          c' \<leftarrow> rsvg_drawing_ctx_release_node c (Some n);
          Some (c', False)
        }) \<and>
   (render_stack_fast_path st lc \<longleftrightarrow>
      rsvg_state_get_opacity st = 0xFF \<and> rsvg_state_get_filter st = None \<and>
      rsvg_state_get_mask st = None \<and> \<not> lc \<and>
      rsvg_state_get_comp_op st = CAIRO_OPERATOR_OVER \<and>
      rsvg_state_get_enable_background st = RSVG_ENABLE_BACKGROUND_ACCUMULATE)"
proof (intro conjI impI)
  assume p: "push_render_stack_clip e ctx = Some (ctx1, lateclip)"
  from push_render_stack_clip_lateclip [OF p]
  show "lateclip \<longleftrightarrow>
         (\<exists>u n. rsvg_state_get_clip_path (state ctx) = Some u \<and> defs ctx u = Some n \<and>
            n \<notin> set (acquired_nodes ctx) \<and>
            rsvg_node_get_type e n = RSVG_NODE_TYPE_CLIP_PATH \<and>
            rsvg_node_clip_path_get_units e n = objectBoundingBox)"
    by (simp only: acquire_node_fst_iff conj_assoc)
  from push_render_stack_clip_stacks [OF p]
  show "cr_stack ctx1 = cr_stack ctx" "surfaces_stack ctx1 = surfaces_stack ctx" by simp_all
  show "rsvg_cairo_push_render_stack e ctx = Some ctx1" if "render_stack_fast_path (state ctx) lateclip"
    using p that by (simp add: rsvg_cairo_push_render_stack_def)
  show "rsvg_cairo_pop_render_stack e ctx2 = Some ctx2"
    if "render_stack_fast_path (state ctx) lateclip \<and> state ctx2 = state ctx \<and>
       defs ctx2 = defs ctx \<and> acquired_nodes ctx2 = acquired_nodes ctx"
    using pop_render_stack_fast [OF p] that by simp
  show "\<exists>ctx'. rsvg_cairo_push_render_stack e ctx = Some ctx' \<and>
            cairo_log ctx' = cairo_log ctx1 @
              [if rsvg_state_get_filter (state ctx) = None
               then CAIRO_SURFACE_CREATE_SIMILAR (next_handle ctx1) (cairo_target ctx1 (cr ctx1))
                      (width ctx1) (height ctx1)
               else CAIRO_IMAGE_SURFACE_CREATE (next_handle ctx1) (width ctx1) (height ctx1),
               CAIRO_CREATE (Suc (next_handle ctx1)) (next_handle ctx1),
               CAIRO_SURFACE_DESTROY (next_handle ctx1)] \<and>
            cr ctx' = Suc (next_handle ctx1) \<and> cr_stack ctx' = cr ctx1 # cr_stack ctx1 \<and>
            surfaces_stack ctx' =
              (if rsvg_state_get_filter (state ctx) = None then surfaces_stack ctx1
               else next_handle ctx1 # surfaces_stack ctx1) \<and>
            bb_stack ctx' = bbox ctx1 # bb_stack ctx1 \<and>
            ink_bb_stack ctx' = ink_bbox ctx1 # ink_bb_stack ctx1"
    if "\<not> render_stack_fast_path (state ctx) lateclip"
    using push_render_stack_slow [OF p that] .
next
  assume "rsvg_state_get_clip_path (state ctx) = None"
  then show "push_render_stack_clip e ctx = Some (ctx, False)"
    by (simp add: push_render_stack_clip_def)
next
  assume "rsvg_state_get_clip_path (state ctx) = Some u \<and>
    (case defs ctx u of
       None \<Rightarrow> True
     | Some n \<Rightarrow> n \<in> set (acquired_nodes ctx) \<or>
                  rsvg_node_get_type e n \<noteq> RSVG_NODE_TYPE_CLIP_PATH)"
  then show "push_render_stack_clip e ctx = Some (ctx, False)"
    by (auto simp: push_render_stack_clip_def acquire_node_of_type_eq
        rsvg_drawing_ctx_acquire_node_def split: option.splits)
next
  assume "rsvg_state_get_clip_path (state ctx) = Some u \<and> defs ctx u = Some n \<and>
    n \<notin> set (acquired_nodes ctx) \<and> rsvg_node_get_type e n = RSVG_NODE_TYPE_CLIP_PATH \<and>
    rsvg_node_clip_path_get_units e n = objectBoundingBox"
  then show "push_render_stack_clip e ctx = Some (ctx, True)"
    by (simp add: push_render_stack_clip_def acquire_node_of_type_eq
        rsvg_drawing_ctx_acquire_node_def release_head)
next
  assume "rsvg_state_get_clip_path (state ctx) = Some u \<and> defs ctx u = Some n \<and>
    n \<notin> set (acquired_nodes ctx) \<and> rsvg_node_get_type e n = RSVG_NODE_TYPE_CLIP_PATH \<and>
    rsvg_node_clip_path_get_units e n = userSpaceOnUse"
  then show "push_render_stack_clip e ctx =
        do {
          c \<leftarrow> rsvg_cairo_clip e (ctx\<lparr>acquired_nodes := n # acquired_nodes ctx\<rparr>) n None;
          c' \<leftarrow> rsvg_drawing_ctx_release_node c (Some n);
          Some (c', False)
        }"
    by (simp add: push_render_stack_clip_def acquire_node_of_type_eq
        rsvg_drawing_ctx_acquire_node_def)
next
  show "render_stack_fast_path st lc \<longleftrightarrow>
      rsvg_state_get_opacity st = 0xFF \<and> rsvg_state_get_filter st = None \<and>
      rsvg_state_get_mask st = None \<and> \<not> lc \<and>
      rsvg_state_get_comp_op st = CAIRO_OPERATOR_OVER \<and>
      rsvg_state_get_enable_background st = RSVG_ENABLE_BACKGROUND_ACCUMULATE"
    by (simp add: render_stack_fast_path_def)
qed

text \<open>
  The example context takes the fast path in both directions; with the opacity \<open>0x80\<close> a
  surface is allocated and the stacks are pushed. An opaque layer with the clip path
  \<open>#clip\<close>, in \<^verbatim>\<open>userSpaceOnUse\<close> units, is clipped at once and takes the fast path in both
  directions; with the clip path \<open>#bbclip\<close>, in \<^verbatim>\<open>objectBoundingBox\<close> units, the clip is
  deferred and a surface is allocated; a clip-path reference to the mask \<open>#mask\<close> is no
  clip.
\<close>

theorem render_stack_fast_path_allocation_witness:
  "rsvg_cairo_push_render_stack example_env example_ctx = Some example_ctx \<and>
   rsvg_cairo_pop_render_stack example_env example_ctx = Some example_ctx \<and>
   (\<exists>ctx'. rsvg_cairo_push_render_stack example_env
             (example_ctx\<lparr>state := example_state\<lparr>rsvg_state_get_opacity := 0x80\<rparr>\<rparr>) = Some ctx' \<and>
      cairo_log ctx' = [CAIRO_SURFACE_CREATE_SIMILAR 2 0 100 100, CAIRO_CREATE 3 2, CAIRO_SURFACE_DESTROY 2] \<and>
      cr ctx' = 3 \<and> cr_stack ctx' = [1] \<and> surfaces_stack ctx' = [] \<and>
      bb_stack ctx' = [example_bbox] \<and> ink_bb_stack ctx' = [example_bbox]) \<and>
   push_render_stack_clip example_env
     (example_ctx\<lparr>state := example_state\<lparr>rsvg_state_get_clip_path := Some ''#clip''\<rparr>\<rparr>) =
     Some (example_ctx\<lparr>state := example_state\<lparr>rsvg_state_get_clip_path := Some ''#clip''\<rparr>,
                       cairo_log := [CAIRO_CLIP 1]\<rparr>, False) \<and>
   rsvg_cairo_push_render_stack example_env
     (example_ctx\<lparr>state := example_state\<lparr>rsvg_state_get_clip_path := Some ''#clip''\<rparr>\<rparr>) =
     Some (example_ctx\<lparr>state := example_state\<lparr>rsvg_state_get_clip_path := Some ''#clip''\<rparr>,
                       cairo_log := [CAIRO_CLIP 1]\<rparr>) \<and>
   rsvg_cairo_pop_render_stack example_env
     (example_ctx\<lparr>state := example_state\<lparr>rsvg_state_get_clip_path := Some ''#clip''\<rparr>,
                  cairo_log := [CAIRO_CLIP 1]\<rparr>) =
     Some (example_ctx\<lparr>state := example_state\<lparr>rsvg_state_get_clip_path := Some ''#clip''\<rparr>,
                       cairo_log := [CAIRO_CLIP 1]\<rparr>) \<and>
   push_render_stack_clip example_env
     (example_ctx\<lparr>state := example_state\<lparr>rsvg_state_get_clip_path := Some ''#bbclip''\<rparr>\<rparr>) =
     Some (example_ctx\<lparr>state := example_state\<lparr>rsvg_state_get_clip_path := Some ''#bbclip''\<rparr>\<rparr>, True) \<and>
   (\<exists>ctx'. rsvg_cairo_push_render_stack example_env
             (example_ctx\<lparr>state := example_state\<lparr>rsvg_state_get_clip_path := Some ''#bbclip''\<rparr>\<rparr>) = Some ctx' \<and>
      cairo_log ctx' = [CAIRO_SURFACE_CREATE_SIMILAR 2 0 100 100, CAIRO_CREATE 3 2, CAIRO_SURFACE_DESTROY 2] \<and>
      cr ctx' = 3 \<and> cr_stack ctx' = [1]) \<and>
   push_render_stack_clip example_env
     (example_ctx\<lparr>state := example_state\<lparr>rsvg_state_get_clip_path := Some ''#mask''\<rparr>\<rparr>) =
     Some (example_ctx\<lparr>state := example_state\<lparr>rsvg_state_get_clip_path := Some ''#mask''\<rparr>\<rparr>, False)"
proof -
  let ?c = "example_ctx\<lparr>state := example_state\<lparr>rsvg_state_get_opacity := 0x80\<rparr>\<rparr>"
  let ?u = "example_ctx\<lparr>state := example_state\<lparr>rsvg_state_get_clip_path := Some ''#clip''\<rparr>\<rparr>"
  let ?u' = "example_ctx\<lparr>state := example_state\<lparr>rsvg_state_get_clip_path := Some ''#clip''\<rparr>,
                         cairo_log := [CAIRO_CLIP 1]\<rparr>"
  let ?b = "example_ctx\<lparr>state := example_state\<lparr>rsvg_state_get_clip_path := Some ''#bbclip''\<rparr>\<rparr>"
  let ?m = "example_ctx\<lparr>state := example_state\<lparr>rsvg_state_get_clip_path := Some ''#mask''\<rparr>\<rparr>"
  note TA = render_stack_fast_path_allocation [THEN conjunct1, rule_format]
  note TC = render_stack_fast_path_allocation [THEN conjunct2, THEN conjunct2, THEN conjunct1, rule_format]
  note TD = render_stack_fast_path_allocation [THEN conjunct2, THEN conjunct2, THEN conjunct2,
      THEN conjunct1, rule_format]
  note TE = render_stack_fast_path_allocation [THEN conjunct2, THEN conjunct2, THEN conjunct2,
      THEN conjunct2, THEN conjunct1, rule_format]
  have p1: "push_render_stack_clip example_env example_ctx = Some (example_ctx, False)"
    by (simp add: push_render_stack_clip_def example_ctx_def example_state_def)
  have f1: "render_stack_fast_path (state example_ctx) False"
    by (simp add: render_stack_fast_path_def example_ctx_def example_state_def)
  have p2: "push_render_stack_clip example_env ?c = Some (?c, False)"
    by (simp add: push_render_stack_clip_def example_ctx_def example_state_def)
  have f2: "\<not> render_stack_fast_path (state ?c) False"
    by (simp add: render_stack_fast_path_def example_ctx_def example_state_def)
  have v: "next_handle ?c = 2" "cairo_target ?c (cr ?c) = 0" "width ?c = 100" "height ?c = 100"
    "cairo_log ?c = []" "cr ?c = 1" "cr_stack ?c = []" "surfaces_stack ?c = []"
    "bbox ?c = example_bbox" "ink_bbox ?c = example_bbox" "bb_stack ?c = []" "ink_bb_stack ?c = []"
    "rsvg_state_get_filter (state ?c) = None"
    by (simp_all add: example_ctx_def example_state_def)
  have w: "cairo_target example_ctx (Suc 0) = 0" by (simp add: example_ctx_def)
  from TA [OF p1] f1 have a: "rsvg_cairo_push_render_stack example_env example_ctx = Some example_ctx"
    and b: "rsvg_cairo_pop_render_stack example_env example_ctx = Some example_ctx"
    by simp_all
  from TA [OF p2] f2 have c: "\<exists>ctx'. rsvg_cairo_push_render_stack example_env ?c = Some ctx' \<and>
      cairo_log ctx' = [CAIRO_SURFACE_CREATE_SIMILAR 2 0 100 100, CAIRO_CREATE 3 2, CAIRO_SURFACE_DESTROY 2] \<and>
      cr ctx' = 3 \<and> cr_stack ctx' = [1] \<and> surfaces_stack ctx' = [] \<and>
      bb_stack ctx' = [example_bbox] \<and> ink_bb_stack ctx' = [example_bbox]"
    using v w by simp
  have hu: "rsvg_state_get_clip_path (state ?u) = Some ''#clip'' \<and> defs ?u ''#clip'' = Some 10 \<and>
      10 \<notin> set (acquired_nodes ?u) \<and> rsvg_node_get_type example_env 10 = RSVG_NODE_TYPE_CLIP_PATH \<and>
      rsvg_node_clip_path_get_units example_env 10 = userSpaceOnUse"
    by (simp add: example_ctx_def example_env_def)
  have cu: "rsvg_cairo_clip example_env (?u\<lparr>acquired_nodes := 10 # acquired_nodes ?u\<rparr>) 10 None =
      Some (?u'\<lparr>acquired_nodes := [10]\<rparr>)"
    by (simp add: example_env_def example_ctx_def rsvg_cairo_clip_def g_assert_def cairo_def
      rsvg_state_set_affine_def cairo_matrix_init_def)
  have ru: "rsvg_drawing_ctx_release_node (?u'\<lparr>acquired_nodes := [10]\<rparr>) (Some 10) = Some ?u'"
    by (simp add: rsvg_drawing_ctx_release_node_def example_ctx_def)
  have pu: "push_render_stack_clip example_env ?u = Some (?u', False)"
    using TE [OF hu] cu ru by simp
  have fu: "render_stack_fast_path (state ?u) False" "state ?u' = state ?u" "defs ?u' = defs ?u"
    "acquired_nodes ?u' = acquired_nodes ?u"
    by (simp_all add: render_stack_fast_path_def example_ctx_def example_state_def)
  from TA [OF pu, where ?ctx2.0 = ?u'] fu
  have du: "rsvg_cairo_push_render_stack example_env ?u = Some ?u'"
    and eu: "rsvg_cairo_pop_render_stack example_env ?u' = Some ?u'"
    by simp_all
  have hb: "rsvg_state_get_clip_path (state ?b) = Some ''#bbclip'' \<and> defs ?b ''#bbclip'' = Some 13 \<and>
      13 \<notin> set (acquired_nodes ?b) \<and> rsvg_node_get_type example_env 13 = RSVG_NODE_TYPE_CLIP_PATH \<and>
      rsvg_node_clip_path_get_units example_env 13 = objectBoundingBox"
    by (simp add: example_ctx_def example_env_def)
  from TD [OF hb] have pb: "push_render_stack_clip example_env ?b = Some (?b, True)" .
  have fb: "\<not> render_stack_fast_path (state ?b) True"
    by (simp add: render_stack_fast_path_def)
  have vb: "next_handle ?b = 2" "cairo_target ?b (cr ?b) = 0" "width ?b = 100" "height ?b = 100"
    "cairo_log ?b = []" "cr ?b = 1" "cr_stack ?b = []" "rsvg_state_get_filter (state ?b) = None"
    by (simp_all add: example_ctx_def example_state_def)
  from TA [OF pb] fb have db: "\<exists>ctx'. rsvg_cairo_push_render_stack example_env ?b = Some ctx' \<and>
      cairo_log ctx' = [CAIRO_SURFACE_CREATE_SIMILAR 2 0 100 100, CAIRO_CREATE 3 2, CAIRO_SURFACE_DESTROY 2] \<and>
      cr ctx' = 3 \<and> cr_stack ctx' = [1]"
    using vb w by auto
  have hm: "rsvg_state_get_clip_path (state ?m) = Some ''#mask'' \<and>
      (case defs ?m ''#mask'' of None \<Rightarrow> True
       | Some n \<Rightarrow> n \<in> set (acquired_nodes ?m) \<or> rsvg_node_get_type example_env n \<noteq> RSVG_NODE_TYPE_CLIP_PATH)"
    by (simp add: example_ctx_def example_env_def)
  from TC [OF hm] have pm: "push_render_stack_clip example_env ?m = Some (?m, False)" .
  from a b c pu du eu pb db pm show ?thesis by blast
qed

text \<open>
  Claim C4 at a failing input. With a backend whose allocations fail, and a layer of
  opacity \<open>0x80\<close>, \<^verbatim>\<open>rsvg_cairo_push_render_stack\<close> passes the failed surface to
  \<^verbatim>\<open>cairo_create\<close>, makes the result the current target and pushes the previous one, as if
  the allocation had succeeded. \<^verbatim>\<open>rsvg_cairo_generate_mask\<close>, in the same situation, destroys
  the failed surface and returns.
\<close>

theorem push_render_stack_allocation_failure_unchecked:
  "map_option cairo_log (rsvg_cairo_push_render_stack
      (example_env\<lparr>cairo_surface_status := (\<lambda>_. CAIRO_STATUS_NO_MEMORY)\<rparr>)
      (example_ctx\<lparr>state := example_state\<lparr>rsvg_state_get_opacity := 0x80\<rparr>\<rparr>)) =
     Some [CAIRO_SURFACE_CREATE_SIMILAR 2 0 100 100, CAIRO_CREATE 3 2, CAIRO_SURFACE_DESTROY 2] \<and>
   map_option cr_stack (rsvg_cairo_push_render_stack
      (example_env\<lparr>cairo_surface_status := (\<lambda>_. CAIRO_STATUS_NO_MEMORY)\<rparr>)
      (example_ctx\<lparr>state := example_state\<lparr>rsvg_state_get_opacity := 0x80\<rparr>\<rparr>)) = Some [1] \<and>
   map_option cr (rsvg_cairo_push_render_stack
      (example_env\<lparr>cairo_surface_status := (\<lambda>_. CAIRO_STATUS_NO_MEMORY)\<rparr>)
      (example_ctx\<lparr>state := example_state\<lparr>rsvg_state_get_opacity := 0x80\<rparr>\<rparr>)) = Some 3 \<and>
   cairo_surface_status (example_env\<lparr>cairo_surface_status := (\<lambda>_. CAIRO_STATUS_NO_MEMORY)\<rparr>) 2
     = CAIRO_STATUS_NO_MEMORY \<and>
   map_option cairo_log (rsvg_cairo_generate_mask
      (example_env\<lparr>cairo_surface_status := (\<lambda>_. CAIRO_STATUS_NO_MEMORY)\<rparr>) 1 11 example_ctx) =
     Some [CAIRO_IMAGE_SURFACE_CREATE 2 100 100, CAIRO_SURFACE_DESTROY 2]"
  by (simp add: example_ctx_def example_env_def example_state_def
      rsvg_cairo_push_render_stack_def push_render_stack_clip_def render_stack_fast_path_def
      cairo_surface_create_similar_def cairo_create_def cairo_def push_bounding_box_def
      rsvg_cairo_generate_mask_def g_assert_def cairo_image_surface_create_def Let_def)

lemma pop_render_stack_composite_unresolved:
  assumes "rsvg_state_get_mask st = Some m"
    and "rsvg_drawing_ctx_acquire_node_of_type e ctx (Some m) RSVG_NODE_TYPE_MASK = Some (None, ctx1)"
  shows "pop_render_stack_composite e ctx st = Some ctx"
  using assms acquire_node_of_type_NoneD [OF assms(2)]
  by (simp add: pop_render_stack_composite_def)

lemma pop_render_stack_finish_log:
  "pop_render_stack_finish e ctx child_cr surface needs_destroy = Some ctx' \<Longrightarrow>
   cairo_log ctx' = cairo_log ctx @ CAIRO_DESTROY child_cr #
                      (if needs_destroy then [CAIRO_SURFACE_DESTROY surface] else [])"
  by (auto simp: pop_render_stack_finish_def pop_bounding_box_def cairo_def Let_def
      split: Option.bind_splits list.splits if_splits)

lemma pop_render_stack_unresolved:
  assumes m: "rsvg_state_get_mask (state ctx) = Some m"
    and c: "pop_render_stack_clip e ctx = Some (ctx1, lateclip)"
    and r: "pop_render_stack_restore e ctx1 (state ctx) (cr ctx) lateclip = Some (ctx2, surface, needs_destroy)"
    and a: "rsvg_drawing_ctx_acquire_node_of_type e ctx2 (Some m) RSVG_NODE_TYPE_MASK = Some (None, ctx3)"
  shows "rsvg_cairo_pop_render_stack e ctx = pop_render_stack_finish e ctx2 (cr ctx) surface needs_destroy"
proof -
  have nf: "\<not> render_stack_fast_path (state ctx) (lateclip \<noteq> None)"
    using m by (simp add: render_stack_fast_path_def)
  show ?thesis
    using c r nf pop_render_stack_composite_unresolved [OF m a]
    by (simp add: rsvg_cairo_pop_render_stack_def Let_def)
qed

text \<open>
  Claim C10. When a mask is set and the mask node cannot be acquired, the composition step
  of \<^verbatim>\<open>rsvg_cairo_pop_render_stack\<close> returns the context unchanged: nothing is painted. The
  node cannot be acquired exactly when the identifier is unknown, or the node is already
  acquired, or it is not a mask. The step paints, with or without alpha, when no mask is
  set. For the whole function: with a mask set that cannot be acquired, the function is
  its restore part followed directly by its final part, and the final part only logs the
  destruction of the layer's cairo context (and of the filter's output, if any).
\<close>

theorem pop_render_stack_unresolved_mask_drops_layer:
  "(rsvg_state_get_mask st = Some m \<and>
    rsvg_drawing_ctx_acquire_node_of_type e ctx (Some m) RSVG_NODE_TYPE_MASK = Some (None, ctx1) \<longrightarrow>
      pop_render_stack_composite e ctx st = Some ctx) \<and>
   (rsvg_drawing_ctx_acquire_node_of_type e ctx (Some m) RSVG_NODE_TYPE_MASK = Some (None, ctx) \<longleftrightarrow>
      (case defs ctx m of
         None \<Rightarrow> True
       | Some n \<Rightarrow> n \<in> set (acquired_nodes ctx) \<or> rsvg_node_get_type e n \<noteq> RSVG_NODE_TYPE_MASK)) \<and>
   (rsvg_state_get_mask st = None \<longrightarrow>
      pop_render_stack_composite e ctx st =
        Some (cairo (if rsvg_state_get_opacity st \<noteq> 0xFF
                     then CAIRO_PAINT_WITH_ALPHA (cr ctx) (real (unat (rsvg_state_get_opacity st)) / 255)
                     else CAIRO_PAINT (cr ctx)) ctx)) \<and>
   (rsvg_state_get_mask (state c) = Some m \<and>
    pop_render_stack_clip e c = Some (c1, lateclip) \<and>
    pop_render_stack_restore e c1 (state c) (cr c) lateclip = Some (c2, surface, needs_destroy) \<and>
    rsvg_drawing_ctx_acquire_node_of_type e c2 (Some m) RSVG_NODE_TYPE_MASK = Some (None, c3) \<longrightarrow>
      rsvg_cairo_pop_render_stack e c = pop_render_stack_finish e c2 (cr c) surface needs_destroy) \<and>
   (pop_render_stack_finish e c2 child_cr surface needs_destroy = Some c' \<longrightarrow>
      cairo_log c' = cairo_log c2 @ CAIRO_DESTROY child_cr #
                       (if needs_destroy then [CAIRO_SURFACE_DESTROY surface] else []))"
  using pop_render_stack_composite_unresolved [of st m e ctx ctx1]
    acquire_node_of_type_None_iff [of e ctx m RSVG_NODE_TYPE_MASK]
    pop_render_stack_unresolved [of c m e c1 lateclip c2 surface needs_destroy c3]
    pop_render_stack_finish_log [of e c2 child_cr surface needs_destroy c']
  by (simp add: pop_render_stack_composite_def)

text \<open>
  A layer whose mask is unknown, is a clip path, or is already acquired: the backend sees
  the source surface set and the layer's context destroyed, and no paint in between.
  Without a mask the composition step paints.
\<close>

theorem pop_render_stack_unresolved_mask_drops_layer_witness:
  "map_option cairo_log
     (rsvg_cairo_pop_render_stack example_env (example_layer_ctx (Some ''#unknown''))) =
     Some [CAIRO_IDENTITY_MATRIX 1, CAIRO_SET_SOURCE_SURFACE 1 4 0 0,
           CAIRO_SET_OPERATOR 1 CAIRO_OPERATOR_OVER, CAIRO_DESTROY 5] \<and>
   map_option cairo_log
     (rsvg_cairo_pop_render_stack example_env (example_layer_ctx (Some ''#clip''))) =
     Some [CAIRO_IDENTITY_MATRIX 1, CAIRO_SET_SOURCE_SURFACE 1 4 0 0,
           CAIRO_SET_OPERATOR 1 CAIRO_OPERATOR_OVER, CAIRO_DESTROY 5] \<and>
   map_option cairo_log
     (rsvg_cairo_pop_render_stack example_env
        ((example_layer_ctx (Some ''#mask''))\<lparr>acquired_nodes := [11]\<rparr>)) =
     Some [CAIRO_IDENTITY_MATRIX 1, CAIRO_SET_SOURCE_SURFACE 1 4 0 0,
           CAIRO_SET_OPERATOR 1 CAIRO_OPERATOR_OVER, CAIRO_DESTROY 5] \<and>
   map_option cairo_log
     (pop_render_stack_composite example_env (example_layer_ctx None)
        (example_state\<lparr>rsvg_state_get_opacity := 0x80\<rparr>)) =
     Some [CAIRO_PAINT_WITH_ALPHA 5 (128 / 255)] \<and>
   map_option cairo_log
     (pop_render_stack_composite example_env (example_layer_ctx None) example_state) =
     Some [CAIRO_PAINT 5]"
proof -
  let ?S = "[CAIRO_IDENTITY_MATRIX 1, CAIRO_SET_SOURCE_SURFACE 1 4 0 0,
           CAIRO_SET_OPERATOR 1 CAIRO_OPERATOR_OVER]"
  have ev: "\<And>m acq. let c = (example_layer_ctx (Some m))\<lparr>acquired_nodes := acq\<rparr> in
     rsvg_state_get_mask (state c) = Some m \<and>
     state c = state (example_layer_ctx (Some m)) \<and>
     pop_render_stack_clip example_env c = Some (c, None) \<and>
     cr c = 5 \<and>
     pop_render_stack_restore example_env c (state c) 5 None =
       Some (c\<lparr>cr := 1, cr_stack := [], cairo_log := ?S\<rparr>, 4, False) \<and>
     pop_render_stack_finish example_env (c\<lparr>cr := 1, cr_stack := [], cairo_log := ?S\<rparr>) 5 4 False =
       Some (c\<lparr>cr := 1, cr_stack := [], cairo_log := ?S @ [CAIRO_DESTROY 5],
               bb_stack := [], ink_bb_stack := []\<rparr>)"
    by (simp add: example_layer_ctx_def example_ctx_def example_env_def example_state_def
      pop_render_stack_clip_def pop_render_stack_restore_def
      pop_render_stack_finish_def pop_bounding_box_def example_bbox_def cairo_def Let_def)
  have a1: "rsvg_drawing_ctx_acquire_node_of_type example_env
      ((example_layer_ctx (Some ''#unknown''))\<lparr>acquired_nodes := [], cr := 1, cr_stack := [], cairo_log := ?S\<rparr>)
      (Some ''#unknown'') RSVG_NODE_TYPE_MASK =
     Some (None, (example_layer_ctx (Some ''#unknown''))\<lparr>acquired_nodes := [], cr := 1, cr_stack := [], cairo_log := ?S\<rparr>)"
    by (simp add: acquire_node_of_type_eq rsvg_drawing_ctx_acquire_node_def
        example_layer_ctx_def example_ctx_def)
  have a2: "rsvg_drawing_ctx_acquire_node_of_type example_env
      ((example_layer_ctx (Some ''#clip''))\<lparr>acquired_nodes := [], cr := 1, cr_stack := [], cairo_log := ?S\<rparr>)
      (Some ''#clip'') RSVG_NODE_TYPE_MASK =
     Some (None, (example_layer_ctx (Some ''#clip''))\<lparr>acquired_nodes := [], cr := 1, cr_stack := [], cairo_log := ?S\<rparr>)"
    by (simp add: acquire_node_of_type_eq rsvg_drawing_ctx_acquire_node_def
        example_layer_ctx_def example_ctx_def example_env_def)
  have a3: "rsvg_drawing_ctx_acquire_node_of_type example_env
      ((example_layer_ctx (Some ''#mask''))\<lparr>acquired_nodes := [11], cr := 1, cr_stack := [], cairo_log := ?S\<rparr>)
      (Some ''#mask'') RSVG_NODE_TYPE_MASK =
     Some (None, (example_layer_ctx (Some ''#mask''))\<lparr>acquired_nodes := [11], cr := 1, cr_stack := [], cairo_log := ?S\<rparr>)"
    by (simp add: acquire_node_of_type_eq rsvg_drawing_ctx_acquire_node_def
        example_layer_ctx_def example_ctx_def example_env_def)
  have n: "\<And>m. (example_layer_ctx m)\<lparr>acquired_nodes := []\<rparr> = example_layer_ctx m"
    by (simp add: example_layer_ctx_def example_ctx_def)
  note T = pop_render_stack_unresolved_mask_drops_layer [THEN conjunct2, THEN conjunct2, THEN conjunct2,
      THEN conjunct1, rule_format]
  have r1: "rsvg_cairo_pop_render_stack example_env ((example_layer_ctx (Some ''#unknown''))\<lparr>acquired_nodes := []\<rparr>) =
      Some (((example_layer_ctx (Some ''#unknown''))\<lparr>acquired_nodes := []\<rparr>)\<lparr>cr := 1, cr_stack := [], cairo_log := ?S @ [CAIRO_DESTROY 5],
               bb_stack := [], ink_bb_stack := []\<rparr>)"
    using T [where c = "(example_layer_ctx (Some ''#unknown''))\<lparr>acquired_nodes := []\<rparr>" and m = "''#unknown''"
        and e = example_env and lateclip = None and surface = 4 and needs_destroy = False
        and ?c1.0 = "(example_layer_ctx (Some ''#unknown''))\<lparr>acquired_nodes := []\<rparr>"
        and ?c2.0 = "(example_layer_ctx (Some ''#unknown''))\<lparr>acquired_nodes := [], cr := 1, cr_stack := [], cairo_log := ?S\<rparr>"
        and ?c3.0 = "(example_layer_ctx (Some ''#unknown''))\<lparr>acquired_nodes := [], cr := 1, cr_stack := [], cairo_log := ?S\<rparr>"]
      ev [where m = "''#unknown''" and acq = "[]"] a1
    by (simp add: Let_def)
  have r2: "rsvg_cairo_pop_render_stack example_env ((example_layer_ctx (Some ''#clip''))\<lparr>acquired_nodes := []\<rparr>) =
      Some (((example_layer_ctx (Some ''#clip''))\<lparr>acquired_nodes := []\<rparr>)\<lparr>cr := 1, cr_stack := [], cairo_log := ?S @ [CAIRO_DESTROY 5],
               bb_stack := [], ink_bb_stack := []\<rparr>)"
    using T [where c = "(example_layer_ctx (Some ''#clip''))\<lparr>acquired_nodes := []\<rparr>" and m = "''#clip''"
        and e = example_env and lateclip = None and surface = 4 and needs_destroy = False
        and ?c1.0 = "(example_layer_ctx (Some ''#clip''))\<lparr>acquired_nodes := []\<rparr>"
        and ?c2.0 = "(example_layer_ctx (Some ''#clip''))\<lparr>acquired_nodes := [], cr := 1, cr_stack := [], cairo_log := ?S\<rparr>"
        and ?c3.0 = "(example_layer_ctx (Some ''#clip''))\<lparr>acquired_nodes := [], cr := 1, cr_stack := [], cairo_log := ?S\<rparr>"]
      ev [where m = "''#clip''" and acq = "[]"] a2
    by (simp add: Let_def)
  have r3: "rsvg_cairo_pop_render_stack example_env ((example_layer_ctx (Some ''#mask''))\<lparr>acquired_nodes := [11]\<rparr>) =
      Some (((example_layer_ctx (Some ''#mask''))\<lparr>acquired_nodes := [11]\<rparr>)\<lparr>cr := 1, cr_stack := [], cairo_log := ?S @ [CAIRO_DESTROY 5],
               bb_stack := [], ink_bb_stack := []\<rparr>)"
    using T [where c = "(example_layer_ctx (Some ''#mask''))\<lparr>acquired_nodes := [11]\<rparr>" and m = "''#mask''"
        and e = example_env and lateclip = None and surface = 4 and needs_destroy = False
        and ?c1.0 = "(example_layer_ctx (Some ''#mask''))\<lparr>acquired_nodes := [11]\<rparr>"
        and ?c2.0 = "(example_layer_ctx (Some ''#mask''))\<lparr>acquired_nodes := [11], cr := 1, cr_stack := [], cairo_log := ?S\<rparr>"
        and ?c3.0 = "(example_layer_ctx (Some ''#mask''))\<lparr>acquired_nodes := [11], cr := 1, cr_stack := [], cairo_log := ?S\<rparr>"]
      ev [where m = "''#mask''" and acq = "[11]"] a3
    by (simp add: Let_def)
  have r4: "map_option cairo_log
     (pop_render_stack_composite example_env (example_layer_ctx None)
        (example_state\<lparr>rsvg_state_get_opacity := 0x80\<rparr>)) =
     Some [CAIRO_PAINT_WITH_ALPHA 5 (128 / 255)]"
    "map_option cairo_log
     (pop_render_stack_composite example_env (example_layer_ctx None) example_state) =
     Some [CAIRO_PAINT 5]"
    by (simp_all add: pop_render_stack_composite_def example_state_def example_layer_ctx_def
        example_ctx_def cairo_def)
  show ?thesis
    using r1 r2 r3 r4 by (simp add: n)
qed

section \<open>Words and bytes\<close>

lemma numeral_ff0000: "(0xff0000::guint32) = push_bit 16 (mask 8)"
  by (simp add: mask_eq_exp_minus_1 push_bit_eq_mult)

lemma numeral_ff00: "(0xff00::guint32) = push_bit 8 (mask 8)"
  by (simp add: mask_eq_exp_minus_1 push_bit_eq_mult)

lemma numeral_ff: "(0xff::guint32) = mask 8"
  by (simp add: mask_eq_exp_minus_1)

lemma byte2_take_bit: "drop_bit 16 ((pixel::guint32) AND 0xff0000) = take_bit 8 (drop_bit 16 pixel)"
  unfolding numeral_ff0000 by (rule bit_word_eqI) (auto simp: bit_simps)

lemma byte1_take_bit: "drop_bit 8 ((pixel::guint32) AND 0xff00) = take_bit 8 (drop_bit 8 pixel)"
  unfolding numeral_ff00 by (rule bit_word_eqI) (auto simp: bit_simps)

lemma byte0_take_bit: "((pixel::guint32) AND 0xff) = take_bit 8 pixel"
  unfolding numeral_ff by (simp add: take_bit_eq_mask)

lemma unat_byte2: "unat (drop_bit 16 ((pixel::guint32) AND 0xff0000)) = unat pixel div 65536 mod 256"
  unfolding byte2_take_bit by (simp add: unsigned_take_bit_eq unsigned_drop_bit_eq take_bit_eq_mod drop_bit_eq_div unat_div unat_mod)

lemma unat_byte1: "unat (drop_bit 8 ((pixel::guint32) AND 0xff00)) = unat pixel div 256 mod 256"
  unfolding byte1_take_bit by (simp add: unsigned_take_bit_eq unsigned_drop_bit_eq take_bit_eq_mod drop_bit_eq_div unat_div unat_mod)

lemma unat_byte0: "unat ((pixel::guint32) AND 0xff) = unat pixel mod 256"
  unfolding byte0_take_bit by (simp add: unsigned_take_bit_eq take_bit_eq_mod unat_mod)

lemma unat_byte3: "unat (drop_bit 24 (pixel::guint32)) = unat pixel div 16777216"
  by (simp add: unsigned_drop_bit_eq take_bit_eq_mod drop_bit_eq_div unat_div)

lemma unat_guint8_less: "unat (x::guint8) < 256"
  using unsigned_less [of x, where ?'a = nat] by simp

lemma unat_guint32_less: "unat (x::guint32) < 4294967296"
  using unsigned_less [of x, where ?'a = nat] by simp

lemma unat_ucast_guint8: "unat (ucast (x::guint8) :: guint32) = unat x"
  using unat_guint8_less [of x] by (simp add: unsigned_ucast_eq take_bit_eq_mod)

lemma unat_ucast_down: "unat (ucast (x::guint32) :: guint8) = unat x mod 256"
  by (simp add: unsigned_ucast_eq take_bit_eq_mod)

lemma unat_byte2_le: "unat (drop_bit 16 ((src::guint32) AND 0xff0000)) \<le> 255"
  unfolding unat_byte2 by simp

lemma unat_byte1_le: "unat (drop_bit 8 ((src::guint32) AND 0xff00)) \<le> 255"
  unfolding unat_byte1 by simp

lemma unat_byte0_le: "unat ((src::guint32) AND 0xff) \<le> 255"
  unfolding unat_byte0 by simp

lemma unat_byte3_le: "unat (drop_bit 24 (src::guint32)) \<le> 255"
  using unat_guint32_less [of src] by (simp only: unat_byte3)

section \<open>The luminance of a mask pixel\<close>

lemma unat_mask_pixel:
  "unat (mask_pixel pixel opacity) =
     ((unat pixel div 65536 mod 256) * 14042 + (unat pixel div 256 mod 256) * 47240 +
      (unat pixel mod 256) * 4769) * unat opacity"
proof -
  define r where "r = drop_bit 16 (pixel AND 0x00ff0000)"
  define g where "g = drop_bit 8 (pixel AND 0x0000ff00)"
  define b where "b = pixel AND 0x000000ff"
  define o32 where "o32 = (ucast opacity :: guint32)"
  have r: "unat r \<le> 255" and g: "unat g \<le> 255" and b: "unat b \<le> 255"
    by (simp_all add: r_def g_def b_def unat_byte2 unat_byte1 unat_byte0)
  have o: "unat o32 \<le> 255" using unat_guint8_less [of opacity] by (simp add: o32_def unat_ucast_guint8)
  have ur: "unat (r * 14042) = unat r * 14042"
    using r unat_mult_lem [of r 14042] by simp
  have ug: "unat (g * 47240) = unat g * 47240"
    using g unat_mult_lem [of g 47240] by simp
  have ub: "unat (b * 4769) = unat b * 4769"
    using b unat_mult_lem [of b 4769] by simp
  have urg: "unat (r * 14042 + g * 47240) = unat r * 14042 + unat g * 47240"
    using r g unat_add_lem [of "r * 14042" "g * 47240"] by (simp add: ur ug)
  have s: "unat (r * 14042 + g * 47240 + b * 4769) = unat r * 14042 + unat g * 47240 + unat b * 4769"
    using r g b unat_add_lem [of "r * 14042 + g * 47240" "b * 4769"] by (simp add: urg ub)
  have le: "unat r * 14042 + unat g * 47240 + unat b * 4769 \<le> 16843005"
    using r g b by linarith
  have "(unat r * 14042 + unat g * 47240 + unat b * 4769) * unat o32 \<le> 16843005 * 255"
    using le o by (rule mult_le_mono)
  then have lt: "unat (r * 14042 + g * 47240 + b * 4769) * unat o32 < 2 ^ LENGTH(32)"
    by (simp add: s)
  have m: "unat ((r * 14042 + g * 47240 + b * 4769) * o32) = unat (r * 14042 + g * 47240 + b * 4769) * unat o32"
    using lt by (simp only: unat_mult_lem)
  have e: "mask_pixel pixel opacity = (r * 14042 + g * 47240 + b * 4769) * o32"
    by (simp only: mask_pixel_def r_def g_def b_def o32_def)
  have r': "unat r = unat pixel div 65536 mod 256" by (simp only: r_def unat_byte2)
  have g': "unat g = unat pixel div 256 mod 256" by (simp only: g_def unat_byte1)
  have b': "unat b = unat pixel mod 256" by (simp only: b_def unat_byte0)
  have o': "unat o32 = unat opacity" by (simp only: o32_def unat_ucast_guint8)
  show ?thesis
    by (simp only: e m s r' g' b' o')
qed

lemma luminance_accuracy_real:
  fixes X Y Z :: real
  assumes "0 \<le> X" "X \<le> 65025" "0 \<le> Y" "Y \<le> 65025" "0 \<le> Z" "Z \<le> 65025"
  shows "\<bar>14042 * X + 47240 * Y + 4769 * Z -
          (2126 / 10000 * X + 7152 / 10000 * Y + 722 / 10000 * Z) * (4294967295 / 65025)\<bar> < 16777216"
  using assms unfolding abs_less_iff by (simp add: algebra_simps)

lemma mask_row_length: "length (mask_row opacity row_data w i pixels) = length pixels"
proof (induction opacity row_data w i pixels rule: mask_row.induct)
  case (1 opacity row_data w i pixels)
  then show ?case
    by (subst mask_row.simps) simp
qed

lemma mask_row_nth:
  "k < length pixels \<Longrightarrow>
   mask_row opacity row_data w i pixels ! k =
     (if row_data + i \<le> k \<and> k < row_data + w then mask_pixel (pixels ! k) opacity else pixels ! k)"
proof (induction opacity row_data w i pixels rule: mask_row.induct)
  case (1 opacity row_data w i pixels)
  show ?case
  proof (cases "i < w")
    case True
    define px where "px = pixels[row_data + i := mask_pixel (pixels ! (row_data + i)) opacity]"
    have "mask_row opacity row_data w i pixels = mask_row opacity row_data w (Suc i) px"
      using True by (subst mask_row.simps) (simp only: px_def if_True)
    then have "mask_row opacity row_data w i pixels ! k = mask_row opacity row_data w (Suc i) px ! k"
      by simp
    also have "\<dots> = (if row_data + Suc i \<le> k \<and> k < row_data + w
                      then mask_pixel (px ! k) opacity else px ! k)"
      using "1.IH" [OF True] "1.prems" by (simp add: px_def)
    also have "\<dots> = (if row_data + i \<le> k \<and> k < row_data + w
                      then mask_pixel (pixels ! k) opacity else pixels ! k)"
    proof (cases "k = row_data + i")
      case True
      with \<open>i < w\<close> "1.prems" show ?thesis by (simp add: px_def)
    next
      case False
      then have "(row_data + Suc i \<le> k) = (row_data + i \<le> k)" by auto
      with False show ?thesis by (simp add: px_def)
    qed
    finally show ?thesis .
  next
    case False
    then have e: "mask_row opacity row_data w i pixels = pixels"
      by (subst mask_row.simps) simp
    from False have "\<not> (row_data + i \<le> k \<and> k < row_data + w)" by linarith
    then show ?thesis by (simp only: e if_False)
  qed
qed

lemma mask_rows_length: "length (mask_rows opacity rowstride w h row pixels) = length pixels"
proof (induction opacity rowstride w h row pixels rule: mask_rows.induct)
  case (1 opacity rowstride w h row pixels)
  then show ?case
    by (subst mask_rows.simps) (simp add: mask_row_length)
qed

lemma mask_rows_disjoint:
  fixes r row S w i :: nat
  assumes "Suc r \<le> row" "w \<le> S"
  shows "r * S + w \<le> row * S + i"
proof -
  have "Suc r * S \<le> row * S" using assms(1) by (rule mult_le_mono1)
  then show ?thesis using assms(2) by simp
qed

lemma mask_rows_nth:
  "rowstride = 4 * S \<Longrightarrow> w \<le> S \<Longrightarrow> k < length pixels \<Longrightarrow>
   mask_rows opacity rowstride w h row pixels ! k =
     (if \<exists>r i. row \<le> r \<and> r < h \<and> i < w \<and> k = r * S + i
      then mask_pixel (pixels ! k) opacity else pixels ! k)"
proof (induction opacity rowstride w h row pixels rule: mask_rows.induct)
  case (1 opacity rowstride w h row pixels)
  note rs = \<open>rowstride = 4 * S\<close> and wS = \<open>w \<le> S\<close> and k = \<open>k < length pixels\<close>
  show ?case
  proof (cases "row < h")
    case False
    then have e: "mask_rows opacity rowstride w h row pixels = pixels"
      by (subst mask_rows.simps) simp
    have "\<not> (\<exists>r i. row \<le> r \<and> r < h \<and> i < w \<and> k = r * S + i)"
      using False by auto
    then show ?thesis by (simp only: e if_False)
  next
    case True
    define px where "px = mask_row opacity (row * S) w 0 pixels"
    have rd: "row * rowstride div 4 = row * S" by (simp add: rs)
    have len: "k < length px" using k by (simp add: px_def mask_row_length)
    have px: "px ! k = (if row * S \<le> k \<and> k < row * S + w then mask_pixel (pixels ! k) opacity else pixels ! k)"
      unfolding px_def using mask_row_nth [OF k, of opacity "row * S" w 0] by simp
    have step: "mask_rows opacity rowstride w h row pixels = mask_rows opacity rowstride w h (Suc row) px"
      using True by (subst mask_rows.simps) (simp only: rd px_def if_True)
    have ih: "mask_rows opacity rowstride w h (Suc row) px ! k =
        (if \<exists>r i. Suc row \<le> r \<and> r < h \<and> i < w \<and> k = r * S + i
         then mask_pixel (px ! k) opacity else px ! k)"
      using "1.IH" [OF True rs wS] len by (simp only: rd px_def)
    show ?thesis
    proof (cases "\<exists>r i. Suc row \<le> r \<and> r < h \<and> i < w \<and> k = r * S + i")
      case A: True
      then obtain r i where r: "Suc row \<le> r" "r < h" "i < w" "k = r * S + i" by blast
      from mask_rows_disjoint [OF r(1) wS, of i] r(4) have n: "\<not> (row * S \<le> k \<and> k < row * S + w)" by simp
      have ex: "\<exists>r i. row \<le> r \<and> r < h \<and> i < w \<and> k = r * S + i"
        using r by (intro exI [of _ r] exI [of _ i]) simp
      have "mask_rows opacity rowstride w h row pixels ! k = mask_pixel (px ! k) opacity"
        by (simp only: step ih if_P [OF A])
      also have "px ! k = pixels ! k" by (simp only: px if_not_P [OF n])
      finally show ?thesis by (simp only: if_P [OF ex])
    next
      case B: False
      have b: "mask_rows opacity rowstride w h row pixels ! k = px ! k"
        by (simp only: step ih if_not_P [OF B])
      show ?thesis
      proof (cases "row * S \<le> k \<and> k < row * S + w")
        case C: True
        then have "k = row * S + (k - row * S)" "k - row * S < w" by linarith+
        with True have ex: "\<exists>r i. row \<le> r \<and> r < h \<and> i < w \<and> k = r * S + i"
          by (intro exI [of _ row] exI [of _ "k - row * S"]) simp
        show ?thesis by (simp only: b px if_P [OF C] if_P [OF ex])
      next
        case D: False
        have nex: "\<not> (\<exists>r i. row \<le> r \<and> r < h \<and> i < w \<and> k = r * S + i)"
        proof
          assume "\<exists>r i. row \<le> r \<and> r < h \<and> i < w \<and> k = r * S + i"
          then obtain r i where r: "row \<le> r" "r < h" "i < w" "k = r * S + i" by blast
          show False
          proof (cases "r = row")
            case True
            with r D show False by simp
          next
            case False
            with r(1) have "Suc row \<le> r" by simp
            with r B show False by blast
          qed
        qed
        show ?thesis by (simp only: b px if_not_P [OF D] if_not_P [OF nex])
      qed
    qed
  qed
qed

lemma generate_mask_children_state:
  "generate_mask_children e m s ctx = Some (ctx2, mask_cr, st) \<Longrightarrow>
     st = state ctx \<and> mask_cr = next_handle ctx"
  by (auto simp: generate_mask_children_def rsvg_drawing_ctx_pop_view_box_def
      rsvg_drawing_ctx_push_view_box_def cairo_create_def Let_def
      split: Option.bind_splits if_splits list.splits)

lemma rsvg_cairo_generate_mask_pixels:
  assumes t: "rsvg_node_get_type e m = RSVG_NODE_TYPE_MASK"
    and c: "cairo_image_surface_create ctx (width ctx) (height ctx) = (surface, ctx1)"
    and s: "cairo_surface_status e surface = CAIRO_STATUS_SUCCESS"
    and d: "generate_mask_children e m surface ctx1 = Some (ctx2, mask_cr, st)"
  shows "\<exists>ctx'. rsvg_cairo_generate_mask e cr_arg m ctx = Some ctx' \<and>
           surface_data ctx' = (surface_data ctx2)
             (surface := mask_rows (rsvg_state_get_opacity (state ctx))
                           (cairo_image_surface_get_stride e surface) (width ctx) (height ctx) 0
                           (surface_data ctx2 surface)) \<and>
           cairo_log ctx' = cairo_log ctx2 @
             [CAIRO_DESTROY mask_cr, CAIRO_IDENTITY_MATRIX cr_arg,
              CAIRO_MASK_SURFACE cr_arg surface
                (if cr_arg = initial_cr ctx2 then offset_x ctx2 else 0)
                (if cr_arg = initial_cr ctx2 then offset_y ctx2 else 0),
              CAIRO_SURFACE_DESTROY surface]"
proof -
  from c have st1: "state ctx1 = state ctx"
    by (auto simp: cairo_image_surface_create_def Let_def)
  from generate_mask_children_state [OF d] st1 have st: "st = state ctx" by simp
  show ?thesis
    using t c s d
    by (simp add: rsvg_cairo_generate_mask_def g_assert_def cairo_def Let_def st)
qed

text \<open>
  Claim C5. The value that mask generation stores in a pixel is
  \<open>(R * 14042 + G * 47240 + B * 4769) * opacity\<close>, with \<open>R\<close>, \<open>G\<close>, \<open>B\<close> the bytes 2, 1 and 0 of
  the pixel, and the 32-bit product does not wrap. Its most significant byte, the alpha of
  the mask, is \<open>0xFF\<close> for the pixel \<open>0x00FFFFFF\<close> at opacity 255, is 0 for the pixel
  \<open>0x00000000\<close> at every opacity, and is 0 for every pixel at opacity 0. The stored value
  differs from the luminance \<open>0.2126 R + 0.7152 G + 0.0722 B\<close>, scaled by the opacity and by
  \<open>0xFFFFFFFF / (255 * 255)\<close>, by less than one unit of the alpha byte (\<open>2 ^ 24\<close>), and each
  of the three weights is within one half of its exact scaled ratio. The two loops store
  this value in every pixel \<open>i < w\<close> of every row \<open>row < h\<close> of the surface. And
  \<^verbatim>\<open>rsvg_cairo_generate_mask\<close>, when the allocation succeeds and the mask's children have been
  drawn, runs the loops on the data of the surface it created, with the opacity of the
  current style state, the width and the height of the context and the stride of the
  surface, leaves the data of every other surface as it is, and then hands that surface to
  \<^verbatim>\<open>cairo_mask_surface\<close>.
\<close>

theorem luminance_mask_pixel:
  "unat (mask_pixel pixel opacity) =
     (unat (drop_bit 16 (pixel AND 0x00ff0000)) * 14042 +
      unat (drop_bit 8 (pixel AND 0x0000ff00)) * 47240 +
      unat (pixel AND 0x000000ff) * 4769) * unat opacity \<and>
   drop_bit 24 (mask_pixel 0x00FFFFFF 255) = 0xFF \<and>
   drop_bit 24 (mask_pixel 0x00000000 opacity) = 0x00 \<and>
   drop_bit 24 (mask_pixel pixel 0) = 0 \<and>
   \<bar>real (unat (mask_pixel pixel opacity)) -
      (2126 / 10000 * real (unat (drop_bit 16 (pixel AND 0x00ff0000))) +
       7152 / 10000 * real (unat (drop_bit 8 (pixel AND 0x0000ff00))) +
       722 / 10000 * real (unat (pixel AND 0x000000ff))) * real (unat opacity) *
      (0xFFFFFFFF / (255 * 255))\<bar> < 2 ^ 24 \<and>
   \<bar>real (unat (mask_pixel 0x00010000 1)) - 0xFFFFFFFF / (255 * 255) * (2126 / 10000)\<bar> \<le> 1 / 2 \<and>
   \<bar>real (unat (mask_pixel 0x00000100 1)) - 0xFFFFFFFF / (255 * 255) * (7152 / 10000)\<bar> \<le> 1 / 2 \<and>
   \<bar>real (unat (mask_pixel 0x00000001 1)) - 0xFFFFFFFF / (255 * 255) * (722 / 10000)\<bar> \<le> 1 / 2 \<and>
   (rowstride = 4 * S \<and> w \<le> S \<and> row < h \<and> i < w \<and> row * S + i < length pixels \<longrightarrow>
      mask_rows opacity rowstride w h 0 pixels ! (row * S + i) =
        mask_pixel (pixels ! (row * S + i)) opacity) \<and>
   (rsvg_node_get_type e m = RSVG_NODE_TYPE_MASK \<and>
    cairo_image_surface_create ctx (width ctx) (height ctx) = (surface, ctx1) \<and>
    cairo_surface_status e surface = CAIRO_STATUS_SUCCESS \<and>
    generate_mask_children e m surface ctx1 = Some (ctx2, mask_cr, st) \<longrightarrow>
      (\<exists>ctx'. rsvg_cairo_generate_mask e cr_arg m ctx = Some ctx' \<and>
         surface_data ctx' = (surface_data ctx2)
           (surface := mask_rows (rsvg_state_get_opacity (state ctx))
                         (cairo_image_surface_get_stride e surface) (width ctx) (height ctx) 0
                         (surface_data ctx2 surface)) \<and>
         cairo_log ctx' = cairo_log ctx2 @
           [CAIRO_DESTROY mask_cr, CAIRO_IDENTITY_MATRIX cr_arg,
            CAIRO_MASK_SURFACE cr_arg surface
              (if cr_arg = initial_cr ctx2 then offset_x ctx2 else 0)
              (if cr_arg = initial_cr ctx2 then offset_y ctx2 else 0),
            CAIRO_SURFACE_DESTROY surface]))"
proof -
  define R where "R = unat (drop_bit 16 (pixel AND 0x00ff0000))"
  define G where "G = unat (drop_bit 8 (pixel AND 0x0000ff00))"
  define B where "B = unat (pixel AND 0x000000ff)"
  define Op where "Op = unat opacity"
  have R: "R \<le> 255" unfolding R_def by (rule unat_byte2_le)
  have G: "G \<le> 255" unfolding G_def by (rule unat_byte1_le)
  have B: "B \<le> 255" unfolding B_def by (rule unat_byte0_le)
  have Op: "Op \<le> 255" using unat_guint8_less [of opacity] by (simp add: Op_def)
  have u: "unat (mask_pixel pixel opacity) = (R * 14042 + G * 47240 + B * 4769) * Op"
    by (simp only: unat_mask_pixel R_def G_def B_def Op_def unat_byte2 unat_byte1 unat_byte0)
  have RO: "R * Op \<le> 255 * 255" using R Op by (rule mult_le_mono)
  have GO: "G * Op \<le> 255 * 255" using G Op by (rule mult_le_mono)
  have BO: "B * Op \<le> 255 * 255" using B Op by (rule mult_le_mono)
  have X: "0 \<le> real R * real Op" "real R * real Op \<le> 65025"
    using of_nat_mono [OF RO, where ?'a = real] by simp_all
  have Y: "0 \<le> real G * real Op" "real G * real Op \<le> 65025"
    using of_nat_mono [OF GO, where ?'a = real] by simp_all
  have Z: "0 \<le> real B * real Op" "real B * real Op \<le> 65025"
    using of_nat_mono [OF BO, where ?'a = real] by simp_all
  have acc: "\<bar>real ((R * 14042 + G * 47240 + B * 4769) * Op) -
      (2126 / 10000 * real R + 7152 / 10000 * real G + 722 / 10000 * real B) * real Op *
      (0xFFFFFFFF / (255 * 255))\<bar> < 2 ^ 24"
    using luminance_accuracy_real [OF X Y Z] by (simp add: algebra_simps)
  have loop: "mask_rows opacity rowstride w h 0 pixels ! (row * S + i) =
        mask_pixel (pixels ! (row * S + i)) opacity"
    if "rowstride = 4 * S \<and> w \<le> S \<and> row < h \<and> i < w \<and> row * S + i < length pixels"
  proof -
    from that have "\<exists>r j. 0 \<le> r \<and> r < h \<and> j < w \<and> row * S + i = r * S + j" by blast
    with that show ?thesis by (simp only: mask_rows_nth if_True)
  qed
  show ?thesis
    unfolding R_def [symmetric] G_def [symmetric] B_def [symmetric] Op_def [symmetric]
    apply (intro conjI impI)
            apply (rule u)
           apply (simp add: mask_pixel_def)
          apply (simp add: mask_pixel_def)
         apply (simp add: mask_pixel_def)
        apply (simp only: u acc)
       apply (simp add: mask_pixel_def)
      apply (simp add: mask_pixel_def)
     apply (simp add: mask_pixel_def)
     apply (erule loop)
    apply (elim conjE)
    apply (rule rsvg_cairo_generate_mask_pixels)
       apply assumption+
    done
qed

text \<open>
  A surface of two rows of two pixels, with a row stride of 12 bytes: the four pixels are
  converted at opacity 255, the padding at the end of each row is left as it is. In the
  example environment for masks, \<^verbatim>\<open>rsvg_cairo_generate_mask\<close> produces this data in the
  surface that the backend then receives as the mask.
\<close>

theorem luminance_mask_pixel_witness:
  "mask_rows 255 12 2 2 0 [0x00FFFFFF, 0x00000000, 0x12345678, 0x00020202, 0x00010000, 0x9ABCDEF0] =
     [0xFFFFFC03, 0x00000000, 0x12345678, 0x020201FA, 0x0036A326, 0x9ABCDEF0] \<and>
   mask_rows 255 12 2 2 0 [0x00FFFFFF, 0x00000000, 0x12345678, 0x00020202, 0x00010000, 0x9ABCDEF0] ! (1 * 3 + 0) =
     mask_pixel ([0x00FFFFFF, 0x00000000, 0x12345678, 0x00020202, 0x00010000, 0x9ABCDEF0] ! (1 * 3 + 0)) 255 \<and>
   map_option (\<lambda>c. surface_data c 2) (rsvg_cairo_generate_mask example_mask_env 1 11 example_mask_ctx) =
     Some [0xFFFFFC03, 0x00000000, 0x12345678, 0x020201FA, 0x0036A326, 0x9ABCDEF0] \<and>
   map_option cairo_log (rsvg_cairo_generate_mask example_mask_env 1 11 example_mask_ctx) =
     Some [CAIRO_IMAGE_SURFACE_CREATE 2 2 2, CAIRO_CREATE 3 2, CAIRO_DESTROY 3,
           CAIRO_IDENTITY_MATRIX 1, CAIRO_MASK_SURFACE 1 2 0 0, CAIRO_SURFACE_DESTROY 2]"
proof -
  let ?px = "[0x00FFFFFF, 0x00000000, 0x12345678, 0x00020202, 0x00010000, 0x9ABCDEF0] :: guint32 list"
  have e: "mask_rows 255 12 2 2 0 ?px =
     [0xFFFFFC03, 0x00000000, 0x12345678, 0x020201FA, 0x0036A326, 0x9ABCDEF0]"
    by (simp add: mask_rows.simps mask_row.simps mask_pixel_def)
  note T = luminance_mask_pixel [where rowstride = 12 and S = 3 and w = 2 and h = 2 and row = 1 and i = 0
      and opacity = 255 and pixel = 0 and pixels = ?px and e = example_mask_env and m = 11
      and ctx = example_mask_ctx and surface = 2 and cr_arg = 1 and mask_cr = 3
      and st = example_state
      and ?ctx1.0 = "example_mask_ctx\<lparr>next_handle := 3, cairo_log := [CAIRO_IMAGE_SURFACE_CREATE 2 2 2]\<rparr>"
      and ?ctx2.0 = "example_mask_ctx\<lparr>next_handle := 4,
             cairo_log := [CAIRO_IMAGE_SURFACE_CREATE 2 2 2, CAIRO_CREATE 3 2],
             cairo_target := (\<lambda>_. 0)(3 := 2), surface_data := (\<lambda>_. [])(2 := ?px)\<rparr>"]
  have l: "mask_rows 255 12 2 2 0 ?px ! (1 * 3 + 0) = mask_pixel (?px ! (1 * 3 + 0)) 255"
    using T by simp
  have h: "rsvg_node_get_type example_mask_env 11 = RSVG_NODE_TYPE_MASK"
    "cairo_image_surface_create example_mask_ctx (width example_mask_ctx) (height example_mask_ctx) =
       (2, example_mask_ctx\<lparr>next_handle := 3, cairo_log := [CAIRO_IMAGE_SURFACE_CREATE 2 2 2]\<rparr>)"
    "cairo_surface_status example_mask_env 2 = CAIRO_STATUS_SUCCESS"
    "cairo_image_surface_get_stride example_mask_env 2 = 12"
    "rsvg_state_get_opacity (state example_mask_ctx) = 255"
    "width example_mask_ctx = 2" "height example_mask_ctx = 2"
    "initial_cr example_mask_ctx = 1" "offset_x example_mask_ctx = 0" "offset_y example_mask_ctx = 0"
    by (simp_all add: example_mask_env_def example_env_def example_mask_ctx_def example_ctx_def
        example_state_def cairo_image_surface_create_def)
  have d: "generate_mask_children example_mask_env 11 2
      (example_mask_ctx\<lparr>next_handle := 3, cairo_log := [CAIRO_IMAGE_SURFACE_CREATE 2 2 2]\<rparr>) =
     Some (example_mask_ctx\<lparr>next_handle := 4,
             cairo_log := [CAIRO_IMAGE_SURFACE_CREATE 2 2 2, CAIRO_CREATE 3 2],
             cairo_target := (\<lambda>_. 0)(3 := 2), surface_data := (\<lambda>_. [])(2 := ?px)\<rparr>, 3, example_state)"
    by (simp add: generate_mask_children_def example_mask_env_def example_env_def
        example_mask_ctx_def example_ctx_def cairo_create_def Let_def)
  from T h d have "\<exists>ctx'. rsvg_cairo_generate_mask example_mask_env 1 11 example_mask_ctx = Some ctx' \<and>
      surface_data ctx' = (\<lambda>_. [])(2 := mask_rows 255 12 2 2 0 ?px) \<and>
      cairo_log ctx' = [CAIRO_IMAGE_SURFACE_CREATE 2 2 2, CAIRO_CREATE 3 2, CAIRO_DESTROY 3,
           CAIRO_IDENTITY_MATRIX 1, CAIRO_MASK_SURFACE 1 2 0 0, CAIRO_SURFACE_DESTROY 2]"
    by (simp add: example_mask_ctx_def)
  then have g: "map_option (\<lambda>c. surface_data c 2) (rsvg_cairo_generate_mask example_mask_env 1 11 example_mask_ctx) =
       Some (mask_rows 255 12 2 2 0 ?px)"
     "map_option cairo_log (rsvg_cairo_generate_mask example_mask_env 1 11 example_mask_ctx) =
       Some [CAIRO_IMAGE_SURFACE_CREATE 2 2 2, CAIRO_CREATE 3 2, CAIRO_DESTROY 3,
           CAIRO_IDENTITY_MATRIX 1, CAIRO_MASK_SURFACE 1 2 0 0, CAIRO_SURFACE_DESTROY 2]"
    by auto
  show ?thesis
    using e l g by (simp only: simp_thms)
qed

section \<open>Premultiplied and straight alpha\<close>

lemma MULT_arith:
  fixes t :: nat
  assumes "t \<le> 65152"
  shows "255 * ((t div 256 + t) div 256) \<le> t \<and> t \<le> 255 * ((t div 256 + t) div 256) + 255"
proof -
  define q where "q = t div 256"
  define r where "r = t mod 256"
  have t: "t = 256 * q + r" and r: "r < 256" by (simp_all add: q_def r_def)
  have q: "q \<le> 254" using assms by (simp add: q_def)
  have "(q + t) div 256 = (q + r + q * 256) div 256" by (simp add: t)
  also have "\<dots> = (q + r) div 256 + q" by simp
  finally have p: "(q + t) div 256 = (q + r) div 256 + q" .
  show ?thesis
  proof (cases "q + r < 256")
    case True
    then have "(q + r) div 256 = 0" by simp
    with p True show ?thesis unfolding q_def [symmetric] by (simp add: t)
  next
    case False
    then have "(q + r) div 256 = 1" using q r by simp
    with p False q r show ?thesis unfolding q_def [symmetric] by (simp add: t)
  qed
qed

lemma pack_byte3: "drop_bit 24 (push_bit 24 (ucast (a::guint8)) OR push_bit 16 (ucast (r::guint8)) OR
     push_bit 8 (ucast (g::guint8)) OR (ucast (b::guint8)) :: guint32) = ucast a"
  by (rule bit_word_eqI) (auto simp: bit_simps dest: bit_imp_le_length)

lemma pack_byte2: "take_bit 8 (drop_bit 16 (push_bit 24 (ucast (a::guint8)) OR push_bit 16 (ucast (r::guint8)) OR
     push_bit 8 (ucast (g::guint8)) OR (ucast (b::guint8)) :: guint32)) = ucast r"
  by (rule bit_word_eqI) (auto simp: bit_simps dest: bit_imp_le_length)

lemma pack_byte1: "take_bit 8 (drop_bit 8 (push_bit 24 (ucast (a::guint8)) OR push_bit 16 (ucast (r::guint8)) OR
     push_bit 8 (ucast (g::guint8)) OR (ucast (b::guint8)) :: guint32)) = ucast g"
  by (rule bit_word_eqI) (auto simp: bit_simps dest: bit_imp_le_length)

lemma pack_byte0: "take_bit 8 ((push_bit 24 (ucast (a::guint8)) OR push_bit 16 (ucast (r::guint8)) OR
     push_bit 8 (ucast (g::guint8)) OR (ucast (b::guint8)) :: guint32)) = ucast b"
  by (rule bit_word_eqI) (auto simp: bit_simps dest: bit_imp_le_length)

lemma unat_MULT:
  "unat (MULT c a) = ((unat c * unat a + 127) div 256 + (unat c * unat a + 127)) div 256"
proof -
  define t where "t = (ucast c * ucast a + 0x7f :: guint32)"
  have ca: "unat c * unat a \<le> 255 * 255"
    using unat_guint8_less [of c] unat_guint8_less [of a] by (intro mult_le_mono) simp_all
  have m: "unat (ucast c * ucast a :: guint32) = unat c * unat a"
    using ca unat_mult_lem [of "ucast c :: guint32" "ucast a"] by (simp add: unat_ucast_guint8)
  have t: "unat t = unat c * unat a + 127"
    using ca unat_add_lem [of "ucast c * ucast a :: guint32" "0x7f"] by (simp add: t_def m)
  have tb: "unat t \<le> 65152" using ca t by simp
  have d: "unat (drop_bit 8 t) = unat t div 256"
    by (simp add: drop_bit_eq_div unat_div)
  have "unat t div 256 \<le> unat t" by simp
  with tb have "unat t div 256 + unat t < 2 ^ LENGTH(32)" by simp
  then have s: "unat (drop_bit 8 t + t) = unat t div 256 + unat t"
    using unat_add_lem [of "drop_bit 8 t" t] by (simp only: d)
  have d': "unat (drop_bit 8 (drop_bit 8 t + t)) = unat (drop_bit 8 t + t) div 256"
    by (simp add: drop_bit_eq_div unat_div)
  have d2: "unat (drop_bit 8 (drop_bit 8 t + t)) = (unat t div 256 + unat t) div 256"
    by (simp only: d' s)
  have le: "(unat t div 256 + unat t) div 256 < 256"
    using MULT_arith [OF tb] tb by linarith
  have "unat (MULT c a) = unat (ucast (drop_bit 8 (drop_bit 8 t + t)) :: guint8)"
    by (simp only: MULT_def Let_def t_def)
  also have "\<dots> = (unat t div 256 + unat t) div 256"
    using le by (simp only: unat_ucast_down d2 mod_less)
  finally show ?thesis by (simp only: t)
qed

lemma MULT_bounds:
  "255 * unat (MULT c a) \<le> unat c * unat a + 127 \<and> unat c * unat a \<le> 255 * unat (MULT c a) + 128"
proof -
  have ca: "unat c * unat a \<le> 255 * 255"
    using unat_guint8_less [of c] unat_guint8_less [of a] by (intro mult_le_mono) simp_all
  then have "unat c * unat a + 127 \<le> 65152" by simp
  from MULT_arith [OF this]
  have "255 * unat (MULT c a) \<le> unat c * unat a + 127 \<and>
        unat c * unat a + 127 \<le> 255 * unat (MULT c a) + 255"
    by (simp only: unat_MULT)
  then show ?thesis by simp
qed

lemma MULT_le_alpha: "unat (MULT c a) \<le> unat a"
proof -
  have "unat c * unat a \<le> 255 * unat a"
    using unat_guint8_less [of c] by (intro mult_le_mono) simp_all
  with MULT_bounds [of c a] show ?thesis by linarith
qed

lemma MULT_opaque: "MULT c 255 = c"
proof -
  have "unat (MULT c 255) = unat c" using MULT_bounds [of c 255] by simp
  then show ?thesis by (simp only: word_unat_eq_iff)
qed

lemma unpremultiply_arith:
  fixes a b c p :: nat
  assumes lo: "255 * p \<le> c * a + 127" and hi: "c * a \<le> 255 * p + 128"
    and a: "0 < a" "a \<le> 255"
    and b: "b = (255 * p + a div 2) div a"
  shows "a * b \<le> a * c + 254" and "a * c \<le> a * b + 255"
    and "85 \<le> a \<Longrightarrow> b \<le> c + 1 \<and> c \<le> b + 1"
proof -
  have ab1: "a * b \<le> 255 * p + a div 2"
    unfolding b by (rule times_div_less_eq_dividend)
  have ab2: "255 * p + a div 2 < a + a * b"
    unfolding b using a(1) by (rule dividend_less_times_div)
  have ca: "c * a = a * c" by (rule mult.commute)
  show g1: "a * b \<le> a * c + 254" using ab1 lo a ca by linarith
  show g2: "a * c \<le> a * b + 255" using ab2 hi a ca by linarith
  show "b \<le> c + 1 \<and> c \<le> b + 1" if a85: "85 \<le> a"
  proof (intro conjI)
    show "b \<le> c + 1"
    proof (rule ccontr)
      assume "\<not> b \<le> c + 1"
      then have "c + 2 \<le> b" by simp
      then have "a * (c + 2) \<le> a * b" by (rule mult_le_mono2)
      then have "a * c + 2 * a \<le> a * b" by (simp add: algebra_simps)
      with ab1 lo ca a85 show False by linarith
    qed
    show "c \<le> b + 1"
    proof (rule ccontr)
      assume "\<not> c \<le> b + 1"
      then have "b + 2 \<le> c" by simp
      then have "a * (b + 2) \<le> a * c" by (rule mult_le_mono2)
      then have k: "a * b + 2 * a \<le> a * c" by (simp add: algebra_simps)
      show False
      proof (cases "a = 85")
        case True
        with k ab2 hi ca have "85 * b + 170 \<le> 85 * c" "255 * p + 42 < 85 + 85 * b"
          "85 * c \<le> 255 * p + 128" by simp_all
        then show False
        proof -
          assume h: "85 * b + 170 \<le> 85 * c" "255 * p + 42 < 85 + 85 * b" "85 * c \<le> 255 * p + 128"
          have "3 * p \<le> b"
          proof (rule ccontr)
            assume "\<not> 3 * p \<le> b"
            then have "b + 1 \<le> 3 * p" by simp
            with h(2) show False by linarith
          qed
          with h(1) h(3) show False by linarith
        qed
      next
        case False
        with a85 have "86 \<le> a" by simp
        with k ab2 hi ca show False by linarith
      qed
    qed
  qed
qed

lemma channel_unat:
  fixes c al :: guint32
  assumes c: "unat c \<le> 255" and al: "unat al \<le> 255"
  shows "unat ((c * 255 + al div 2) div al) = (unat c * 255 + unat al div 2) div unat al"
proof -
  have m: "unat (c * 255) = unat c * 255"
    using c unat_mult_lem [of c 255] by simp
  have h: "unat (al div 2) = unat al div 2" by (simp add: unat_div)
  have "unat al div 2 \<le> 127" using al by linarith
  with c have "unat c * 255 + unat al div 2 < 2 ^ LENGTH(32)" by simp
  then have s: "unat (c * 255 + al div 2) = unat c * 255 + unat al div 2"
    using unat_add_lem [of "c * 255" "al div 2"] by (simp only: m h)
  show ?thesis by (simp only: unat_div s)
qed

lemma convert_alpha_pixel_eq:
  "convert_alpha_pixel src =
     (if drop_bit 24 src = 0 then Some (0, 0, 0, ucast (drop_bit 24 src))
      else Some (ucast ((drop_bit 16 (src AND 0xff0000) * 255 + drop_bit 24 src div 2) div drop_bit 24 src),
                 ucast ((drop_bit 8 (src AND 0x00ff00) * 255 + drop_bit 24 src div 2) div drop_bit 24 src),
                 ucast (((src AND 0x0000ff) * 255 + drop_bit 24 src div 2) div drop_bit 24 src),
                 ucast (drop_bit 24 src)))"
  by (simp add: convert_alpha_pixel_def c_udiv_def Let_def)

lemma surface_from_pixbuf_pixel_alpha: "drop_bit 24 (surface_from_pixbuf_pixel (r, g, b, a)) = ucast a"
  by (simp only: surface_from_pixbuf_pixel_def prod.case pack_byte3)

lemma surface_from_pixbuf_pixel_red: "drop_bit 16 (surface_from_pixbuf_pixel (r, g, b, a) AND 0xff0000) = ucast (MULT r a)"
  by (simp only: byte2_take_bit surface_from_pixbuf_pixel_def prod.case pack_byte2)

lemma surface_from_pixbuf_pixel_green: "drop_bit 8 (surface_from_pixbuf_pixel (r, g, b, a) AND 0xff00) = ucast (MULT g a)"
  by (simp only: byte1_take_bit surface_from_pixbuf_pixel_def prod.case pack_byte1)

lemma surface_from_pixbuf_pixel_blue: "surface_from_pixbuf_pixel (r, g, b, a) AND 0xff = ucast (MULT b a)"
  by (simp only: byte0_take_bit surface_from_pixbuf_pixel_def prod.case pack_byte0)

lemma ucast_ucast_guint8: "(ucast (ucast (a::guint8) :: guint32) :: guint8) = a"
  by (rule bit_word_eqI) (auto simp: bit_simps dest: bit_imp_le_length)

lemma ucast_guint8_eq_0: "(ucast (a::guint8) :: guint32) = 0 \<longleftrightarrow> a = 0"
  by (metis ucast_ucast_guint8 ucast_0)

lemma roundtrip_channel:
  fixes c a :: guint8
  assumes a: "a \<noteq> 0"
  defines "d \<equiv> (ucast ((ucast (MULT c a) * 255 + ucast a div 2) div ucast a :: guint32) :: guint8)"
  shows "unat d = (255 * unat (MULT c a) + unat a div 2) div unat a"
proof -
  have a0: "0 < unat a" using a by (simp add: unat_gt_0)
  have a255: "unat a \<le> 255" using unat_guint8_less [of a] by simp
  have p: "unat (MULT c a) \<le> unat a" by (rule MULT_le_alpha)
  have e: "unat ((ucast (MULT c a) * 255 + ucast a div 2) div ucast a :: guint32)
           = (unat (MULT c a) * 255 + unat a div 2) div unat a"
    using channel_unat [of "ucast (MULT c a)" "ucast a"] a255 p by (simp only: unat_ucast_guint8)
  have "unat (MULT c a) * 255 + unat a div 2 < 256 * unat a"
    using p a0 by linarith
  then have lt: "(unat (MULT c a) * 255 + unat a div 2) div unat a < 256"
    using a0 by (simp add: less_mult_imp_div_less mult.commute)
  show ?thesis
    unfolding d_def using lt by (simp only: unat_ucast_down e mod_less mult.commute)
qed

lemma roundtrip_eq:
  "convert_alpha_pixel (surface_from_pixbuf_pixel (r, g, b, a)) =
     (if a = 0 then Some (0, 0, 0, a)
      else Some (ucast ((ucast (MULT r a) * 255 + ucast a div 2) div ucast a :: guint32),
                 ucast ((ucast (MULT g a) * 255 + ucast a div 2) div ucast a :: guint32),
                 ucast ((ucast (MULT b a) * 255 + ucast a div 2) div ucast a :: guint32),
                 a))"
  by (simp only: convert_alpha_pixel_eq surface_from_pixbuf_pixel_alpha surface_from_pixbuf_pixel_red surface_from_pixbuf_pixel_green surface_from_pixbuf_pixel_blue ucast_ucast_guint8 ucast_guint8_eq_0)

lemma roundtrip_channel_bounds:
  fixes c a :: guint8
  assumes a: "a \<noteq> 0"
  defines "d \<equiv> (ucast ((ucast (MULT c a) * 255 + ucast a div 2) div ucast a :: guint32) :: guint8)"
  shows "unat a * unat d \<le> unat a * unat c + 254"
    and "unat a * unat c \<le> unat a * unat d + 255"
    and "85 \<le> unat a \<Longrightarrow> unat d \<le> unat c + 1 \<and> unat c \<le> unat d + 1"
    and "a = 255 \<Longrightarrow> d = c"
proof -
  have a0: "0 < unat a" using a by (simp add: unat_gt_0)
  have a255: "unat a \<le> 255" using unat_guint8_less [of a] by simp
  have d: "unat d = (255 * unat (MULT c a) + unat a div 2) div unat a"
    unfolding d_def using a by (rule roundtrip_channel)
  note B = MULT_bounds [of c a]
  show "unat a * unat d \<le> unat a * unat c + 254"
    using B a0 a255 d by (intro unpremultiply_arith(1) [where p = "unat (MULT c a)"]) simp_all
  show "unat a * unat c \<le> unat a * unat d + 255"
    using B a0 a255 d by (intro unpremultiply_arith(2) [where p = "unat (MULT c a)"]) simp_all
  show "unat d \<le> unat c + 1 \<and> unat c \<le> unat d + 1" if "85 \<le> unat a"
    using B a0 a255 d that by (intro unpremultiply_arith(3) [where p = "unat (MULT c a)" and a = "unat a"]) simp_all
  show "d = c" if "a = 255"
  proof -
    have "unat d = unat c" using d that by (simp add: MULT_opaque)
    then show ?thesis by (simp only: word_unat_eq_iff)
  qed
qed

lemma convert_channel:
  fixes c al :: guint32
  assumes c: "unat c \<le> 255" and al: "unat al \<le> 255"
  shows "unat (ucast ((c * 255 + al div 2) div al) :: guint8) = (unat c * 255 + unat al div 2) div unat al mod 256"
  by (simp only: unat_ucast_down channel_unat [OF c al])

lemma convert_channel_exact:
  fixes c al :: nat
  assumes "c \<le> al" "0 < al"
  shows "(c * 255 + al div 2) div al mod 256 = (c * 255 + al div 2) div al"
proof -
  have "c * 255 + al div 2 < 256 * al" using assms by linarith
  then have "(c * 255 + al div 2) div al < 256"
    using assms(2) by (simp add: less_mult_imp_div_less mult.commute)
  then show ?thesis by simp
qed

text \<open>
  Claim C6, as amended. Converting a straight-alpha pixel \<open>(r, g, b, a)\<close> to the premultiplied
  form and back always reproduces the alpha. It reproduces the colour exactly when
  \<open>a = 255\<close>; when \<open>a = 0\<close> the colour that comes back is \<open>(0, 0, 0)\<close>; each channel that comes
  back is within 1 of the original when \<open>a \<ge> 85\<close>; and for every \<open>a > 0\<close> the error of a
  channel, multiplied by \<open>a\<close>, is at most 255. The division by the alpha is never a
  division by zero.
\<close>

theorem premultiply_roundtrip:
  "\<exists>r' g' b'. convert_alpha_pixel (surface_from_pixbuf_pixel (r, g, b, a)) = Some (r', g', b', a) \<and>
     (a = 255 \<longrightarrow> r' = r \<and> g' = g \<and> b' = b) \<and>
     (a = 0 \<longrightarrow> r' = 0 \<and> g' = 0 \<and> b' = 0) \<and>
     (85 \<le> unat a \<longrightarrow>
        unat r' \<le> unat r + 1 \<and> unat r \<le> unat r' + 1 \<and>
        unat g' \<le> unat g + 1 \<and> unat g \<le> unat g' + 1 \<and>
        unat b' \<le> unat b + 1 \<and> unat b \<le> unat b' + 1) \<and>
     (a \<noteq> 0 \<longrightarrow>
        unat a * unat r' \<le> unat a * unat r + 254 \<and> unat a * unat r \<le> unat a * unat r' + 255 \<and>
        unat a * unat g' \<le> unat a * unat g + 254 \<and> unat a * unat g \<le> unat a * unat g' + 255 \<and>
        unat a * unat b' \<le> unat a * unat b + 254 \<and> unat a * unat b \<le> unat a * unat b' + 255)"
proof (cases "a = 0")
  case True
  then show ?thesis by (simp add: roundtrip_eq)
next
  case False
  note R = roundtrip_channel_bounds [OF False, of r]
  note G = roundtrip_channel_bounds [OF False, of g]
  note B = roundtrip_channel_bounds [OF False, of b]
  have e: "convert_alpha_pixel (surface_from_pixbuf_pixel (r, g, b, a)) =
      Some (ucast ((ucast (MULT r a) * 255 + ucast a div 2) div ucast a :: guint32),
                 ucast ((ucast (MULT g a) * 255 + ucast a div 2) div ucast a :: guint32),
                 ucast ((ucast (MULT b a) * 255 + ucast a div 2) div ucast a :: guint32),
                 a)"
    using False by (simp only: roundtrip_eq if_False)
  show ?thesis
    apply (intro exI conjI impI)
                      apply (rule e)
    using False R G B by simp_all
qed

text \<open>
  The round trip at an opaque pixel, at a transparent one and at the alpha 85.
\<close>

theorem premultiply_roundtrip_witness:
  "convert_alpha_pixel (surface_from_pixbuf_pixel (200, 100, 50, 255)) = Some (200, 100, 50, 255) \<and>
   convert_alpha_pixel (surface_from_pixbuf_pixel (200, 100, 50, 0)) = Some (0, 0, 0, 0) \<and>
   convert_alpha_pixel (surface_from_pixbuf_pixel (200, 100, 50, 85)) = Some (201, 99, 51, 85)"
  using premultiply_roundtrip [of 200 100 50 255] premultiply_roundtrip [of 200 100 50 0]
    premultiply_roundtrip [of 200 100 50 85]
  by (simp add: convert_alpha_pixel_def surface_from_pixbuf_pixel_def MULT_def c_udiv_def)

text \<open>
  Claim C6 as stated fails: at the alpha 1 the red channel 200 comes back as 255 and the
  green channel 100 as 0, and at the alpha 0 the colour \<open>(200, 100, 50)\<close> comes back as
  \<open>(0, 0, 0)\<close>.
\<close>

theorem premultiply_roundtrip_counterexample:
  "convert_alpha_pixel (surface_from_pixbuf_pixel (200, 100, 50, 1)) = Some (255, 0, 0, 1) \<and>
   convert_alpha_pixel (surface_from_pixbuf_pixel (200, 100, 50, 0)) = Some (0, 0, 0, 0)"
  by (simp add: convert_alpha_pixel_def surface_from_pixbuf_pixel_def MULT_def c_udiv_def)

text \<open>
  Claim C7. For every pixel \<^verbatim>\<open>convert_alpha\<close> divides by the alpha only when it is not zero,
  and the alpha it writes is the alpha of the input. When the alpha is 0 the three colour
  bytes are 0. Otherwise, for a premultiplied pixel, where no channel exceeds the alpha,
  each colour byte is \<open>(channel * 255 + alpha div 2) div alpha\<close>. (The quotient is stored in
  a byte: for any pixel the byte is the low 8 bits of the quotient, which for a
  premultiplied pixel is the quotient itself.)
\<close>

theorem convert_alpha_pixel_result:
  "\<exists>d0 d1 d2. convert_alpha_pixel src = Some (d0, d1, d2, ucast (drop_bit 24 src)) \<and>
     (drop_bit 24 src = 0 \<longrightarrow> d0 = 0 \<and> d1 = 0 \<and> d2 = 0) \<and>
     (drop_bit 24 src \<noteq> 0 \<longrightarrow>
        unat d0 = (unat (drop_bit 16 (src AND 0xff0000)) * 255 + unat (drop_bit 24 src) div 2)
                    div unat (drop_bit 24 src) mod 256 \<and>
        unat d1 = (unat (drop_bit 8 (src AND 0x00ff00)) * 255 + unat (drop_bit 24 src) div 2)
                    div unat (drop_bit 24 src) mod 256 \<and>
        unat d2 = (unat (src AND 0x0000ff) * 255 + unat (drop_bit 24 src) div 2)
                    div unat (drop_bit 24 src) mod 256 \<and>
        (unat (drop_bit 16 (src AND 0xff0000)) \<le> unat (drop_bit 24 src) \<longrightarrow>
           unat d0 = (unat (drop_bit 16 (src AND 0xff0000)) * 255 + unat (drop_bit 24 src) div 2)
                       div unat (drop_bit 24 src)) \<and>
        (unat (drop_bit 8 (src AND 0x00ff00)) \<le> unat (drop_bit 24 src) \<longrightarrow>
           unat d1 = (unat (drop_bit 8 (src AND 0x00ff00)) * 255 + unat (drop_bit 24 src) div 2)
                       div unat (drop_bit 24 src)) \<and>
        (unat (src AND 0x0000ff) \<le> unat (drop_bit 24 src) \<longrightarrow>
           unat d2 = (unat (src AND 0x0000ff) * 255 + unat (drop_bit 24 src) div 2)
                       div unat (drop_bit 24 src)))"
proof (cases "drop_bit 24 src = 0")
  case True
  then show ?thesis by (simp only: convert_alpha_pixel_eq) simp
next
  case False
  define A where "A = drop_bit 24 src"
  define R where "R = drop_bit 16 (src AND 0xff0000)"
  define G where "G = drop_bit 8 (src AND 0x00ff00)"
  define B where "B = src AND 0x0000ff"
  have A: "unat A \<le> 255" unfolding A_def by (rule unat_byte3_le)
  have A0: "0 < unat A" using False by (simp add: A_def unat_gt_0)
  have R: "unat R \<le> 255" unfolding R_def by (rule unat_byte2_le)
  have G: "unat G \<le> 255" unfolding G_def by (rule unat_byte1_le)
  have B: "unat B \<le> 255" unfolding B_def by (rule unat_byte0_le)
  have e: "convert_alpha_pixel src =
      Some (ucast ((R * 255 + A div 2) div A), ucast ((G * 255 + A div 2) div A),
            ucast ((B * 255 + A div 2) div A), ucast A)"
    using False by (simp only: convert_alpha_pixel_eq if_False A_def R_def G_def B_def)
  show ?thesis
    unfolding A_def [symmetric] R_def [symmetric] G_def [symmetric] B_def [symmetric]
    apply (intro exI conjI impI)
              apply (rule e)
    using False A0 by (simp_all add: A_def [symmetric] convert_channel [OF R A] convert_channel [OF G A] convert_channel [OF B A] convert_channel_exact)
qed

text \<open>
  A premultiplied pixel, a transparent pixel, and a pixel that is not premultiplied (its
  red channel exceeds its alpha), where only the low 8 bits of the quotient are written.
\<close>

theorem convert_alpha_pixel_result_witness:
  "convert_alpha_pixel 0x80402010 = Some (128, 64, 32, 128) \<and>
   convert_alpha_pixel 0x00402010 = Some (0, 0, 0, 0) \<and>
   convert_alpha_pixel 0x01FF0000 = Some (1, 0, 0, 1)"
  using convert_alpha_pixel_result [of "0x80402010"] convert_alpha_pixel_result [of "0x00402010"]
    convert_alpha_pixel_result [of "0x01FF0000"]
  by (simp add: convert_alpha_pixel_def c_udiv_def)

end
